theory Spec2Isabelle
  imports Complex_Main "HOL-Library.Log_Nat"
begin

section \<open>Numbers (IEEE 754 binary64)\<close>

text \<open>
  A JavaScript number is a binary64 value: a finite rational that the format represents,
  the negative zero, one of the two infinities, or \<open>NaN\<close>. \<open>Num 0\<close> is the positive
  zero. Every arithmetic operation computes the exact result and rounds it to the nearest
  representable value, a tie going to the one whose significand is even.
\<close>

datatype number = Num rat | NegZero | PosInfinity | NegInfinity | NaN

definition roundHalfEven :: "rat \<Rightarrow> int" where
  \<comment> \<open>the nearest integer, the even one of the two when they are equally near\<close>
  "roundHalfEven y =
     (let f = \<lfloor>y\<rfloor>; d = y - of_int f
      in if d < 1 / 2 then f else if 1 / 2 < d then f + 1 else if even f then f else f + 1)"

definition ilog2 :: "rat \<Rightarrow> int" where
  \<comment> \<open>for \<open>0 < x\<close>, the exponent \<open>e\<close> with \<open>2 powi e \<le> x < 2 powi (e + 1)\<close>\<close>
  "ilog2 x =
     (case quotient_of x of
        (p, q) \<Rightarrow> (let d = bitlen p - bitlen q in if 2 powi d \<le> x then d else d - 1))"

definition binary64 :: "rat \<Rightarrow> number" where
  \<comment> \<open>The rounding of an exact result: 53 significant bits, the exponent no smaller than
      -1022 (below it the numbers are subnormal), an infinity from \<open>2 powi 1024\<close> on, and
      the zero that a negative result rounds to is the negative one.\<close>
  "binary64 x =
     (if x = 0 then Num 0
      else (let e = max (ilog2 \<bar>x\<bar>) (- 1022);
                u = 2 powi (e - 52);
                y = of_int (roundHalfEven (x / u)) * u
            in if 2 powi 1024 \<le> y then PosInfinity
               else if y \<le> - (2 powi 1024) then NegInfinity
               else if y = 0 \<and> x < 0 then NegZero
               else Num y))"

fun valueOf :: "number \<Rightarrow> rat" where
  \<comment> \<open>the rational a finite number stands for\<close>
  "valueOf (Num x) = x"
| "valueOf NegZero = 0"
| "valueOf PosInfinity = 0"
| "valueOf NegInfinity = 0"
| "valueOf NaN = 0"

fun isNaN :: "number \<Rightarrow> bool" where
  "isNaN NaN = True"
| "isNaN (Num x) = False"
| "isNaN NegZero = False"
| "isNaN PosInfinity = False"
| "isNaN NegInfinity = False"

fun isInfinite :: "number \<Rightarrow> bool" where
  "isInfinite PosInfinity = True"
| "isInfinite NegInfinity = True"
| "isInfinite (Num x) = False"
| "isInfinite NegZero = False"
| "isInfinite NaN = False"

fun isZero :: "number \<Rightarrow> bool" where
  "isZero (Num x) = (x = 0)"
| "isZero NegZero = True"
| "isZero PosInfinity = False"
| "isZero NegInfinity = False"
| "isZero NaN = False"

fun signBit :: "number \<Rightarrow> bool" where
  "signBit (Num x) = (x < 0)"
| "signBit NegZero = True"
| "signBit PosInfinity = False"
| "signBit NegInfinity = True"
| "signBit NaN = False"

definition signedZero :: "bool \<Rightarrow> number" where
  "signedZero negative = (if negative then NegZero else Num 0)"

definition signedInfinity :: "bool \<Rightarrow> number" where
  "signedInfinity negative = (if negative then NegInfinity else PosInfinity)"

fun add64 :: "number \<Rightarrow> number \<Rightarrow> number" where
  \<comment> \<open>\<open>a + b\<close>\<close>
  "add64 NaN b = NaN"
| "add64 a NaN = NaN"
| "add64 PosInfinity NegInfinity = NaN"
| "add64 NegInfinity PosInfinity = NaN"
| "add64 PosInfinity b = PosInfinity"
| "add64 NegInfinity b = NegInfinity"
| "add64 a PosInfinity = PosInfinity"
| "add64 a NegInfinity = NegInfinity"
| "add64 NegZero b = b"
| "add64 a NegZero = a"
| "add64 (Num x) (Num y) = binary64 (x + y)"

fun neg64 :: "number \<Rightarrow> number" where
  "neg64 (Num x) = (if x = 0 then NegZero else Num (- x))"
| "neg64 NegZero = Num 0"
| "neg64 PosInfinity = NegInfinity"
| "neg64 NegInfinity = PosInfinity"
| "neg64 NaN = NaN"

definition sub64 :: "number \<Rightarrow> number \<Rightarrow> number" where
  \<comment> \<open>\<open>a - b\<close>\<close>
  "sub64 a b = add64 a (neg64 b)"

definition mul64 :: "number \<Rightarrow> number \<Rightarrow> number" where
  \<comment> \<open>\<open>a * b\<close>\<close>
  "mul64 a b =
     (if isNaN a \<or> isNaN b then NaN
      else if isInfinite a \<or> isInfinite b then
        (if isZero a \<or> isZero b then NaN else signedInfinity (signBit a \<noteq> signBit b))
      else if isZero a \<or> isZero b then signedZero (signBit a \<noteq> signBit b)
      else binary64 (valueOf a * valueOf b))"

definition div64 :: "number \<Rightarrow> number \<Rightarrow> number" where
  \<comment> \<open>\<open>a / b\<close>\<close>
  "div64 a b =
     (if isNaN a \<or> isNaN b then NaN
      else if isInfinite a then
        (if isInfinite b then NaN else signedInfinity (signBit a \<noteq> signBit b))
      else if isInfinite b then signedZero (signBit a \<noteq> signBit b)
      else if isZero b then
        (if isZero a then NaN else signedInfinity (signBit a \<noteq> signBit b))
      else if isZero a then signedZero (signBit a \<noteq> signBit b)
      else binary64 (valueOf a / valueOf b))"

fun lt64 :: "number \<Rightarrow> number \<Rightarrow> bool" where
  \<comment> \<open>\<open>a < b\<close>: false when either is \<open>NaN\<close>; the two zeros are equal\<close>
  "lt64 NaN b = False"
| "lt64 a NaN = False"
| "lt64 a NegInfinity = False"
| "lt64 PosInfinity b = False"
| "lt64 NegInfinity b = True"
| "lt64 a PosInfinity = True"
| "lt64 a b = (valueOf a < valueOf b)"

fun eq64 :: "number \<Rightarrow> number \<Rightarrow> bool" where
  \<comment> \<open>\<open>a === b\<close>\<close>
  "eq64 NaN b = False"
| "eq64 a NaN = False"
| "eq64 PosInfinity b = (b = PosInfinity)"
| "eq64 NegInfinity b = (b = NegInfinity)"
| "eq64 a PosInfinity = False"
| "eq64 a NegInfinity = False"
| "eq64 a b = (valueOf a = valueOf b)"

definition gt64 :: "number \<Rightarrow> number \<Rightarrow> bool" where
  \<comment> \<open>\<open>a > b\<close>\<close>
  "gt64 a b = lt64 b a"

definition le64 :: "number \<Rightarrow> number \<Rightarrow> bool" where
  \<comment> \<open>\<open>a <= b\<close>\<close>
  "le64 a b = (lt64 a b \<or> eq64 a b)"

definition Math_min :: "number \<Rightarrow> number \<Rightarrow> number" where
  \<comment> \<open>\<open>Math.min(a, b)\<close>: the negative zero is the smaller zero\<close>
  "Math_min a b =
     (if isNaN a \<or> isNaN b then NaN
      else if lt64 a b then a else if lt64 b a then b
      else if a = NegZero then a else b)"

definition Math_max :: "number \<Rightarrow> number \<Rightarrow> number" where
  \<comment> \<open>\<open>Math.max(a, b)\<close>\<close>
  "Math_max a b =
     (if isNaN a \<or> isNaN b then NaN
      else if lt64 a b then b else if lt64 b a then a
      else if a = NegZero then b else a)"

fun Math_floor :: "number \<Rightarrow> number" where
  \<comment> \<open>\<open>Math.floor(a)\<close>: the floor of a binary64 value is one\<close>
  "Math_floor (Num x) = Num (of_int \<lfloor>x\<rfloor>)"
| "Math_floor NegZero = NegZero"
| "Math_floor PosInfinity = PosInfinity"
| "Math_floor NegInfinity = NegInfinity"
| "Math_floor NaN = NaN"


section \<open>Dates and strings\<close>

text \<open>
  A \<open>Date\<close> is its time value, the milliseconds since 1970-01-01T00:00 UTC, of a
  valid date; the host's time zone is taken to be UTC, so that \<open>getDay\<close> and
  \<open>setDate\<close> work on UTC days. Time values are integers that binary64 represents
  exactly, and they are kept as integers; so are the whole days between two dates, the
  floor of the quotient of their difference by the milliseconds of a day: for dates less
  than \<open>2 ^ 53\<close> milliseconds (some 285,000 years) apart the difference is exact and the
  rounded quotient has the floor of the exact one.
\<close>

type_synonym date = int

definition msPerDay :: int where
  "msPerDay = 1000 * 60 * 60 * 24"

definition getDay :: "date \<Rightarrow> int" where
  \<comment> \<open>\<open>Date.prototype.getDay\<close>: 0 is Sunday; 1970-01-01 was a Thursday.\<close>
  "getDay d = (d div msPerDay + 4) mod 7"

definition toUpperCase :: "string \<Rightarrow> string" where
  \<comment> \<open>\<open>String.prototype.toUpperCase\<close> on ASCII letters.\<close>
  "toUpperCase s =
     map (\<lambda>c. if 97 \<le> (of_char c :: nat) \<and> (of_char c :: nat) \<le> 122
              then char_of ((of_char c :: nat) - 32) else c) s"

section \<open>TaxCalculator (src/js/tax-calculator.js)\<close>

text \<open>A decimal literal of the source is the binary64 value nearest to it.\<close>

record rateTable =
  lessThan1Year :: number
  oneToTwoYears :: number
  twoToThreeYears :: number
  threeToFourYears :: number
  fourPlusYears :: number

definition newRegimeCutoff :: date where
  \<comment> \<open>\<open>new Date('2024-07-01')\<close>\<close>
  "newRegimeCutoff = 1719792000000"

definition taxRates_filer_default :: number where
  "taxRates_filer_default = binary64 (15 / 100)"

definition taxRates_nonFiler_default :: number where
  "taxRates_nonFiler_default = binary64 (15 / 100)"

definition legacyRates_filer :: rateTable where
  "legacyRates_filer =
     \<lparr>lessThan1Year = binary64 (15 / 100), oneToTwoYears = binary64 (125 / 1000),
      twoToThreeYears = binary64 (10 / 100), threeToFourYears = binary64 (75 / 1000),
      fourPlusYears = binary64 0\<rparr>"

definition legacyRates_nonFiler :: rateTable where
  "legacyRates_nonFiler =
     \<lparr>lessThan1Year = binary64 (15 / 100), oneToTwoYears = binary64 (15 / 100),
      twoToThreeYears = binary64 (15 / 100), threeToFourYears = binary64 (15 / 100),
      fourPlusYears = binary64 (15 / 100)\<rparr>"

definition getTaxRate :: "bool \<Rightarrow> date \<Rightarrow> int \<Rightarrow> number" where
  \<comment> \<open>The first argument is the calculator's \<open>isFiler\<close> field.\<close>
  "getTaxRate isFiler purchaseDate holdingDays =
     (if purchaseDate \<ge> newRegimeCutoff then
        (if isFiler then taxRates_filer_default else taxRates_nonFiler_default)
      else
        (let rates = (if isFiler then legacyRates_filer else legacyRates_nonFiler) in
         if holdingDays < 365 then lessThan1Year rates
         else if holdingDays < 730 then oneToTwoYears rates
         else if holdingDays < 1095 then twoToThreeYears rates
         else if holdingDays < 1460 then threeToFourYears rates
         else fourPlusYears rates))"

section \<open>FIFOQueue (src/unnamed/part_002)\<close>

record transaction =
  txn_id :: nat
  txn_type :: string
  txn_symbol :: string
  txn_quantity :: number
  txn_price :: number
  tradeDate :: date
  settlementDate :: date
  totalValue :: number
  timestamp :: date

datatype origin =
    Purchase transaction
  | RIGHT_ISSUE string date number number number
    \<comment> \<open>symbol, exDate, rightRatio, rightPrice, eligibleShares\<close>

record lot =
  quantity :: number
  price :: number
  purchaseDate :: date
  remainingQuantity :: number
  originalTransaction :: origin

text \<open>
  Of the holding period the source also computes \<open>months\<close>, \<open>years\<close> and a
  \<open>formatted\<close> string; no code reads them, and they are left out.
\<close>

record holdingPeriod =
  days :: int
  isLongTerm :: bool

record lotUsed =
  lu_purchaseDate :: date
  lu_quantity :: number
  costPerShare :: number
  costBasis :: number
  lu_holdingPeriod :: holdingPeriod

record saleResult =
  sr_symbol :: string
  quantitySold :: number
  sellPrice :: number
  saleProceeds :: number
  totalCostBasis :: number
  capitalGain :: number
  lotsUsed :: "lotUsed list"
  saleDate :: date
  isSimulation :: bool

record FIFOQueue =
  holdings :: "string \<rightharpoonup> lot list"
  transactions :: "transaction list"
  realizedGains :: "saleResult list"

text \<open>
  Every \<open>throw new Error(...)\<close> of the source is one constructor, with the numbers its
  message prints; \<open>TypeError\<close> is what the runtime throws on reading a property of
  \<open>undefined\<close>.
\<close>

datatype error =
    CannotSellNoHoldings string
  | CannotSellOnlyAvailable number string number
  | NoHoldingsFound string
  | InsufficientShares number number
  | InvalidBonusRatio
  | NoLotsFound string
  | NoSharesBeforeExDate date string
  | BonusRatioTooSmall number number
  | InvalidRightRatio
  | InvalidRightPrice
  | RightRatioTooSmall number number
  | RightLotNotFound
  | RightSharesSold number
  | TypeError

definition constructor :: FIFOQueue where
  "constructor = \<lparr>holdings = Map.empty, transactions = [], realizedGains = []\<rparr>"

function calculateSettlementDate_loop :: "date \<Rightarrow> nat \<Rightarrow> date" where
  "calculateSettlementDate_loop date daysAdded =
     (if daysAdded < 2 then
        (let date' = date + msPerDay; dayOfWeek = getDay date' in
         if dayOfWeek \<noteq> 0 \<and> dayOfWeek \<noteq> 6
         then calculateSettlementDate_loop date' (daysAdded + 1)
         else calculateSettlementDate_loop date' daysAdded)
      else date)"
  by pat_completeness auto

definition weekendAhead :: "int \<Rightarrow> nat" where
  \<comment> \<open>how many weekend days follow a day of the week directly (termination measure)\<close>
  "weekendAhead d = (if d = 5 then 2 else if d = 6 then 1 else 0)"

termination calculateSettlementDate_loop
proof (relation "measure (\<lambda>(date, daysAdded). 3 * (2 - daysAdded) + weekendAhead (getDay date))")
  show "wf (measure (\<lambda>(date, daysAdded). 3 * (2 - daysAdded) + weekendAhead (getDay date)))"
    by simp
next
  fix date :: date and daysAdded :: nat and x xa
  assume "daysAdded < 2" "x = date + msPerDay" "xa = getDay x" "xa \<noteq> 0 \<and> xa \<noteq> 6"
  moreover have "0 \<le> getDay date \<and> getDay date < 7" "0 \<le> getDay x \<and> getDay x < 7"
    by (simp_all add: getDay_def)
  ultimately show "((x, daysAdded + 1), date, daysAdded)
      \<in> measure (\<lambda>(date, daysAdded). 3 * (2 - daysAdded) + weekendAhead (getDay date))"
    by (auto simp: weekendAhead_def)
next
  fix date :: date and daysAdded :: nat and x xa
  assume a: "daysAdded < 2" "x = date + msPerDay" "xa = getDay x" "\<not> (xa \<noteq> 0 \<and> xa \<noteq> 6)"
  have "(date + msPerDay) div msPerDay = date div msPerDay + 1"
    by (simp add: msPerDay_def)
  then have "getDay x = (getDay date + 1) mod 7"
    using a(2) by (simp add: getDay_def mod_simps add.commute add.left_commute)
  moreover have "0 \<le> getDay date \<and> getDay date < 7"
    by (simp add: getDay_def)
  ultimately show "((x, daysAdded), date, daysAdded)
      \<in> measure (\<lambda>(date, daysAdded). 3 * (2 - daysAdded) + weekendAhead (getDay date))"
    using a by (auto simp: weekendAhead_def) presburger+
qed

declare calculateSettlementDate_loop.simps [simp del]

definition calculateSettlementDate :: "date \<Rightarrow> date" where
  "calculateSettlementDate d = calculateSettlementDate_loop d 0"

definition getHoldingPeriod :: "date \<Rightarrow> date \<Rightarrow> holdingPeriod" where
  "getHoldingPeriod purchase sell =
     (let diffMs = sell - purchase;
          diffDays = diffMs div msPerDay
      in \<lparr>days = diffDays, isLongTerm = (diffDays \<ge> 365)\<rparr>)"

text \<open>
  An operation returns its value or the error it throws, together with the queue as the
  call leaves it: a \<open>throw\<close> keeps what was assigned before it.
\<close>

type_synonym 'a outcome = "(error + 'a) \<times> FIFOQueue"

definition processBuy :: "FIFOQueue \<Rightarrow> transaction \<Rightarrow> FIFOQueue" where
  "processBuy q t =
     (let symbol = txn_symbol t;
          lots = (case holdings q symbol of None \<Rightarrow> [] | Some ls \<Rightarrow> ls);
          lot = \<lparr>quantity = txn_quantity t, price = txn_price t,
                 purchaseDate = settlementDate t, remainingQuantity = txn_quantity t,
                 originalTransaction = Purchase t\<rparr>
      in q\<lparr>holdings := (holdings q)(symbol \<mapsto> lots @ [lot])\<rparr>)"

text \<open>
  The consuming loop of \<open>_processSell\<close>: \<open>i\<close> is the loop index, \<open>lots\<close> the array
  whose lot objects the loop updates in place.
\<close>

function processSell_loop ::
  "date \<Rightarrow> lot list \<Rightarrow> nat \<Rightarrow> number \<Rightarrow> lotUsed list \<Rightarrow> number
     \<Rightarrow> lot list \<times> number \<times> lotUsed list \<times> number" where
  "processSell_loop settle lots i remainingToSell used runningTotal =
     (if i < length lots \<and> gt64 remainingToSell (Num 0) then
        (let lot = lots ! i;
             sharesToTake = Math_min (remainingQuantity lot) remainingToSell
         in if gt64 sharesToTake (Num 0) then
              (let cost = mul64 sharesToTake (price lot);
                   period = getHoldingPeriod (purchaseDate lot) settle
               in processSell_loop settle
                    (lots[i := lot\<lparr>remainingQuantity :=
                                       sub64 (remainingQuantity lot) sharesToTake\<rparr>])
                    (i + 1) (sub64 remainingToSell sharesToTake)
                    (used @ [\<lparr>lu_purchaseDate = purchaseDate lot, lu_quantity = sharesToTake,
                              costPerShare = price lot, costBasis = cost,
                              lu_holdingPeriod = period\<rparr>])
                    (add64 runningTotal cost))
            else processSell_loop settle lots (i + 1) remainingToSell used runningTotal)
      else (lots, remainingToSell, used, runningTotal))"
  by pat_completeness auto

termination processSell_loop
  by (relation "measure (\<lambda>(settle, lots, i, remainingToSell, used, runningTotal). length lots - i)") auto

declare processSell_loop.simps [simp del]

definition processSell :: "FIFOQueue \<Rightarrow> transaction \<Rightarrow> saleResult outcome" where
  "processSell q t =
     (let symbol = txn_symbol t; qty = txn_quantity t; prc = txn_price t;
          settle = settlementDate t
      in case holdings q symbol of
           None \<Rightarrow> (Inl (CannotSellNoHoldings symbol), q)
         | Some lots \<Rightarrow>
             if length lots = 0 then (Inl (CannotSellNoHoldings symbol), q)
             else
               (let totalAvailable =
                      foldl (\<lambda>sum lot. add64 sum (remainingQuantity lot)) (Num 0) lots in
                if lt64 totalAvailable qty
                then (Inl (CannotSellOnlyAvailable qty symbol totalAvailable), q)
                else
                  (case processSell_loop settle lots 0 qty [] (Num 0) of
                     (lots', remainingToSell, used, runningTotal) \<Rightarrow>
                       (let kept = filter (\<lambda>lot. gt64 (remainingQuantity lot) (Num 0)) lots';
                            proceeds = mul64 qty prc;
                            gain = sub64 proceeds runningTotal;
                            result = \<lparr>sr_symbol = symbol, quantitySold = qty, sellPrice = prc,
                                      saleProceeds = proceeds, totalCostBasis = runningTotal,
                                      capitalGain = gain, lotsUsed = used, saleDate = settle,
                                      isSimulation = False\<rparr>
                        in (Inr result,
                            q\<lparr>holdings := (holdings q)(symbol \<mapsto> kept),
                              realizedGains := realizedGains q @ [result]\<rparr>)))))"

datatype added = TransactionRecord transaction | SaleRecord saleResult

text \<open>
  \<open>addTransaction\<close>: \<open>qty\<close> and \<open>prc\<close> are \<open>parseFloat(quantity)\<close> and
  \<open>parseFloat(price)\<close>, \<open>now\<close> is the clock reading of \<open>new Date()\<close>. The SELL branch
  returns the sale result before the statement that pushes the transaction.
\<close>

definition addTransaction ::
  "date \<Rightarrow> FIFOQueue \<Rightarrow> string \<Rightarrow> string \<Rightarrow> number \<Rightarrow> number \<Rightarrow> date \<Rightarrow> added outcome" where
  "addTransaction now q ty symbol qty prc d =
     (let settle = calculateSettlementDate d;
          t = \<lparr>txn_id = length (transactions q) + 1, txn_type = toUpperCase ty,
               txn_symbol = toUpperCase symbol, txn_quantity = qty, txn_price = prc,
               tradeDate = d, settlementDate = settle, totalValue = mul64 qty prc,
               timestamp = now\<rparr>
      in if toUpperCase ty = ''BUY'' then
           (let q' = processBuy q t
            in (Inr (TransactionRecord t), q'\<lparr>transactions := transactions q' @ [t]\<rparr>))
         else if toUpperCase ty = ''SELL'' then
           (case processSell q t of
              (Inl e, q') \<Rightarrow> (Inl e, q')
            | (Inr r, q') \<Rightarrow> (Inr (SaleRecord r), q'))
         else (Inr (TransactionRecord t), q\<lparr>transactions := transactions q @ [t]\<rparr>))"

text \<open>The loop of \<open>calculateSale\<close> reads the lots and assigns to none of them.\<close>

function calculateSale_loop ::
  "date \<Rightarrow> lot list \<Rightarrow> nat \<Rightarrow> number \<Rightarrow> lotUsed list \<Rightarrow> number
     \<Rightarrow> number \<times> lotUsed list \<times> number" where
  "calculateSale_loop settle lots i remainingToSell used runningTotal =
     (if i < length lots \<and> gt64 remainingToSell (Num 0) then
        (let lot = lots ! i;
             sharesToTake = Math_min (remainingQuantity lot) remainingToSell
         in if gt64 sharesToTake (Num 0) then
              (let cost = mul64 sharesToTake (price lot);
                   period = getHoldingPeriod (purchaseDate lot) settle
               in calculateSale_loop settle lots (i + 1) (sub64 remainingToSell sharesToTake)
                    (used @ [\<lparr>lu_purchaseDate = purchaseDate lot, lu_quantity = sharesToTake,
                              costPerShare = price lot, costBasis = cost,
                              lu_holdingPeriod = period\<rparr>])
                    (add64 runningTotal cost))
            else calculateSale_loop settle lots (i + 1) remainingToSell used runningTotal)
      else (remainingToSell, used, runningTotal))"
  by pat_completeness auto

termination calculateSale_loop
  by (relation "measure (\<lambda>(settle, lots, i, remainingToSell, used, runningTotal). length lots - i)") auto

declare calculateSale_loop.simps [simp del]

definition calculateSale ::
  "FIFOQueue \<Rightarrow> string \<Rightarrow> number \<Rightarrow> number \<Rightarrow> date \<Rightarrow> saleResult outcome" where
  "calculateSale q symbolArg qty prc sellDate =
     (let symbol = toUpperCase symbolArg;
          settle = calculateSettlementDate sellDate
      in case holdings q symbol of
           None \<Rightarrow> (Inl (NoHoldingsFound symbol), q)
         | Some lots \<Rightarrow>
             if length lots = 0 then (Inl (NoHoldingsFound symbol), q)
             else
               (let totalAvailable =
                      foldl (\<lambda>sum lot. add64 sum (remainingQuantity lot)) (Num 0) lots in
                if lt64 totalAvailable qty then (Inl (InsufficientShares qty totalAvailable), q)
                else
                  (case calculateSale_loop settle lots 0 qty [] (Num 0) of
                     (remainingToSell, used, runningTotal) \<Rightarrow>
                       (let proceeds = mul64 qty prc;
                            gain = sub64 proceeds runningTotal
                        in (Inr \<lparr>sr_symbol = symbol, quantitySold = qty, sellPrice = prc,
                                 saleProceeds = proceeds, totalCostBasis = runningTotal,
                                 capitalGain = gain, lotsUsed = used, saleDate = settle,
                                 isSimulation = True\<rparr>, q)))))"

section \<open>TaxCalculator.calculateTaxForSale\<close>

text \<open>The \<open>taxRatePercentage\<close> string of a lot entry is display only and left out.\<close>

record lotTax =
  lt_purchaseDate :: date
  lt_quantity :: number
  lt_costPerShare :: number
  lt_sellPrice :: number
  gain :: number
  lt_taxableGain :: number
  taxRate :: number
  tax :: number
  lt_holdingPeriod :: holdingPeriod

record taxCalc =
  tc_symbol :: string
  tc_quantitySold :: number
  tc_saleProceeds :: number
  tc_totalCostBasis :: number
  tc_capitalGain :: number
  taxableGain :: number
  totalTax :: number
  netProfit :: number
  effectiveTaxRate :: number
  taxByLot :: "lotTax list"
  tc_saleDate :: date
  tc_isFiler :: bool

fun calculateTaxForSale_loop ::
  "bool \<Rightarrow> number \<Rightarrow> lotUsed list \<Rightarrow> lotTax list \<Rightarrow> number \<Rightarrow> lotTax list \<times> number" where
  "calculateTaxForSale_loop isFiler sp [] byLot runningTotal = (byLot, runningTotal)"
| "calculateTaxForSale_loop isFiler sp (l # ls) byLot runningTotal =
     (let rate = getTaxRate isFiler (lu_purchaseDate l) (days (lu_holdingPeriod l));
          lotGain = mul64 (sub64 sp (costPerShare l)) (lu_quantity l);
          taxable = Math_max (Num 0) lotGain;
          lotTax = mul64 taxable rate
      in calculateTaxForSale_loop isFiler sp ls
           (byLot @ [\<lparr>lt_purchaseDate = lu_purchaseDate l, lt_quantity = lu_quantity l,
                       lt_costPerShare = costPerShare l, lt_sellPrice = sp, gain = lotGain,
                       lt_taxableGain = taxable, taxRate = rate, tax = lotTax,
                       lt_holdingPeriod = lu_holdingPeriod l\<rparr>])
           (add64 runningTotal lotTax))"

definition calculateTaxForSale :: "bool \<Rightarrow> saleResult \<Rightarrow> taxCalc" where
  "calculateTaxForSale isFiler sale =
     (case calculateTaxForSale_loop isFiler (sellPrice sale) (lotsUsed sale) [] (Num 0) of
        (byLot, runningTotal) \<Rightarrow>
          \<lparr>tc_symbol = sr_symbol sale, tc_quantitySold = quantitySold sale,
           tc_saleProceeds = saleProceeds sale, tc_totalCostBasis = totalCostBasis sale,
           tc_capitalGain = capitalGain sale,
           taxableGain = Math_max (Num 0) (capitalGain sale),
           totalTax = runningTotal, netProfit = sub64 (capitalGain sale) runningTotal,
           effectiveTaxRate =
             (if gt64 (capitalGain sale) (Num 0) then div64 runningTotal (capitalGain sale)
              else Num 0),
           taxByLot = byLot, tc_saleDate = saleDate sale, tc_isFiler = isFiler\<rparr>)"

section \<open>FIFOQueue.getHoldings\<close>

record holdingLot =
  hl_quantity :: number
  hl_price :: number
  hl_purchaseDate :: date
  hl_value :: number

record holding =
  totalQuantity :: number
  averageCost :: number
  h_totalCostBasis :: number
  h_lots :: "holdingLot list"

definition getHoldings :: "FIFOQueue \<Rightarrow> string \<rightharpoonup> holding" where
  \<comment> \<open>the summary object, read at one symbol\<close>
  "getHoldings q symbol =
     (case holdings q symbol of
        None \<Rightarrow> None
      | Some lots \<Rightarrow>
          (let shares = foldl (\<lambda>sum lot. add64 sum (remainingQuantity lot)) (Num 0) lots in
           if gt64 shares (Num 0) then
             (let totalValue =
                    foldl (\<lambda>sum lot. add64 sum (mul64 (remainingQuantity lot) (price lot)))
                      (Num 0) lots
              in Some \<lparr>totalQuantity = shares, averageCost = div64 totalValue shares,
                        h_totalCostBasis = totalValue,
                        h_lots = map (\<lambda>lot. \<lparr>hl_quantity = remainingQuantity lot,
                                              hl_price = price lot,
                                              hl_purchaseDate = purchaseDate lot,
                                              hl_value = mul64 (remainingQuantity lot) (price lot)\<rparr>)
                                   lots\<rparr>)
           else None))"

section \<open>The transaction form handler (src/unnamed/part_003)\<close>

datatype message =
    PleaseFillAllFields
  | ErrorMessage error
  | AddedBuy number string number
  | AddedSell number string number number

text \<open>
  \<open>handleAddTransaction\<close>: \<open>qty\<close> and \<open>prc\<close> are the form fields after
  \<open>parseFloat\<close>; \<open>tradeDateField\<close> is \<open>None\<close> for an empty date field. A field that
  \<open>parseFloat\<close> reads as \<open>NaN\<close> is not \<open><= 0\<close> and passes the guard. The message
  shown and the queue are what the handler leaves; a sale message reads \<open>capitalGain\<close>
  of the result, which a transaction record does not have.
\<close>

definition handleAddTransaction ::
  "date \<Rightarrow> FIFOQueue \<Rightarrow> string \<Rightarrow> string \<Rightarrow> number \<Rightarrow> number \<Rightarrow> date option
     \<Rightarrow> message \<times> FIFOQueue" where
  "handleAddTransaction now q ty symbolField qty prc tradeDateField =
     (let symbol = toUpperCase symbolField in
      if symbol = [] \<or> le64 qty (Num 0) \<or> le64 prc (Num 0) \<or> tradeDateField = None
      then (PleaseFillAllFields, q)
      else
        (case addTransaction now q ty symbol qty prc (the tradeDateField) of
           (Inl e, q') \<Rightarrow> (ErrorMessage e, q')
         | (Inr result, q') \<Rightarrow>
             if ty = ''BUY'' then (AddedBuy qty symbol prc, q')
             else (case result of
                     SaleRecord r \<Rightarrow> (AddedSell qty symbol prc (capitalGain r), q')
                   | TransactionRecord t \<Rightarrow> (ErrorMessage TypeError, q'))))"

section \<open>CorporateActionsManager (src/unnamed/part_004)\<close>

text \<open>
  The \<open>ratio\<close> of the details is a number or a string; what the two parsers read of it
  is kept: \<open>parseFloat\<close> of the whole, \<open>parseFloat\<close> of a string that ends with a
  percent sign, or \<open>parseFloat\<close> of the two parts around the colon of a string that has
  one. Each can be \<open>NaN\<close>.
\<close>

datatype ratioInput =
    Number number
  | PercentString number
  | ColonString number number

record details =
  ratio :: ratioInput
  issuePrice :: number
  exDate :: date
  subscriptionDate :: "date option"

text \<open>
  \<open>issuePrice\<close> is \<open>parseFloat(details.price)\<close>; \<open>subscriptionDate\<close> is \<open>None\<close>
  when the field is absent or empty.
\<close>

definition parseBonusRatio :: "ratioInput \<Rightarrow> number" where
  \<comment> \<open>\<open>parseFloat\<close> stops at the colon of \<open>"n:m"\<close>.\<close>
  "parseBonusRatio r =
     (case r of
        Number x \<Rightarrow> x
      | PercentString x \<Rightarrow> div64 x (Num 100)
      | ColonString n m \<Rightarrow> n)"

definition parseRightRatio :: "ratioInput \<Rightarrow> number" where
  \<comment> \<open>\<open>"0:0"\<close> is \<open>NaN\<close> and \<open>"1:0"\<close> is \<open>Infinity\<close>.\<close>
  "parseRightRatio r =
     (case r of
        Number x \<Rightarrow> x
      | PercentString x \<Rightarrow> x
      | ColonString n m \<Rightarrow> div64 n m)"

record bonusResult =
  br_symbol :: string
  oldShares :: number
  bonusShares :: number
  newTotalShares :: number
  oldAvgCost :: number
  newAvgCost :: number
  br_costBasis :: number
  bonusRatio :: number

fun bonusTotals :: "date \<Rightarrow> lot list \<Rightarrow> number \<Rightarrow> number \<Rightarrow> number \<times> number" where
  \<comment> \<open>the first loop of \<open>_applyBonusShares\<close>: \<open>totalOldShares\<close> and \<open>totalCostBasis\<close>\<close>
  "bonusTotals exDateObj [] shares cost = (shares, cost)"
| "bonusTotals exDateObj (lot # lots) shares cost =
     (if purchaseDate lot < exDateObj
      then bonusTotals exDateObj lots (add64 shares (remainingQuantity lot))
             (add64 cost (mul64 (remainingQuantity lot) (price lot)))
      else bonusTotals exDateObj lots shares cost)"

definition adjustLot :: "number \<Rightarrow> date \<Rightarrow> lot \<Rightarrow> lot" where
  \<comment> \<open>the body of the second loop of \<open>_applyBonusShares\<close>\<close>
  "adjustLot ratio' exDateObj lot =
     (if purchaseDate lot < exDateObj then
        (let oldQuantity = remainingQuantity lot;
             bonusForThisLot = Math_floor (mul64 oldQuantity ratio');
             newQuantity = add64 oldQuantity bonusForThisLot
         in lot\<lparr>remainingQuantity := newQuantity,
                price := div64 (mul64 oldQuantity (price lot)) newQuantity\<rparr>)
      else lot)"

definition applyBonusShares :: "FIFOQueue \<Rightarrow> string \<Rightarrow> details \<Rightarrow> bonusResult outcome" where
  "applyBonusShares q symbol d =
     (let ratio' = parseBonusRatio (ratio d) in
      if isNaN ratio' \<or> le64 ratio' (Num 0) \<or> gt64 ratio' (Num 1)
      then (Inl InvalidBonusRatio, q)
      else
        (case holdings q symbol of
           None \<Rightarrow> (Inl (NoLotsFound symbol), q)
         | Some lots \<Rightarrow>
             if length lots = 0 then (Inl (NoLotsFound symbol), q)
             else
               (case bonusTotals (exDate d) lots (Num 0) (Num 0) of
                  (totalOldShares, cost) \<Rightarrow>
                    if eq64 totalOldShares (Num 0)
                    then (Inl (NoSharesBeforeExDate (exDate d) symbol), q)
                    else
                      (let totalBonusShares = Math_floor (mul64 totalOldShares ratio') in
                       if eq64 totalBonusShares (Num 0)
                       then (Inl (BonusRatioTooSmall totalOldShares ratio'), q)
                       else
                         (let totalNewShares = add64 totalOldShares totalBonusShares;
                              avg = div64 cost totalNewShares;
                              lots' = map (adjustLot ratio' (exDate d)) lots
                          in (Inr \<lparr>br_symbol = symbol, oldShares = totalOldShares,
                                   bonusShares = totalBonusShares,
                                   newTotalShares = totalNewShares,
                                   oldAvgCost = div64 cost totalOldShares,
                                   newAvgCost = avg, br_costBasis = cost,
                                   bonusRatio = ratio'\<rparr>,
                              q\<lparr>holdings := (holdings q)(symbol \<mapsto> lots')\<rparr>))))))"

record rightResult =
  rr_symbol :: string
  rr_eligibleShares :: number
  rightSharesEntitled :: number
  rightPrice :: number
  rightRatio :: number
  totalCost :: number
  rr_newTotalShares :: number
  rr_newAvgCost :: number
  newTotalCostBasis :: number
  rr_purchaseDate :: date

fun eligibleShares :: "date \<Rightarrow> lot list \<Rightarrow> number \<Rightarrow> number" where
  \<comment> \<open>the loop of \<open>_applyRightIssue\<close> that adds up the shares bought before the ex-date\<close>
  "eligibleShares exDateObj [] shares = shares"
| "eligibleShares exDateObj (lot # lots) shares =
     (if purchaseDate lot < exDateObj
      then eligibleShares exDateObj lots (add64 shares (remainingQuantity lot))
      else eligibleShares exDateObj lots shares)"

text \<open>
  \<open>_applyRightIssue\<close> pushes the new lot and then reads the symbol's entry of
  \<open>getHoldings()\<close>, which is missing when the total is not positive: reading
  \<open>totalQuantity\<close> of it throws a \<open>TypeError\<close> after the push.
\<close>

definition rightLot :: "string \<Rightarrow> details \<Rightarrow> number \<Rightarrow> number \<Rightarrow> number \<Rightarrow> lot" where
  \<comment> \<open>\<open>newLot\<close>: the arguments are the ratio, the price and the eligible shares\<close>
  "rightLot symbol d ratio' price' eligible =
     \<lparr>quantity = Math_floor (mul64 eligible ratio'),
      price = price',
      purchaseDate = (case subscriptionDate d of
                        Some s \<Rightarrow> s
                      | None \<Rightarrow> exDate d + 30 * 24 * 60 * 60 * 1000),
      remainingQuantity = Math_floor (mul64 eligible ratio'),
      originalTransaction = RIGHT_ISSUE symbol (exDate d) ratio' price' eligible\<rparr>"

definition applyRightIssue :: "FIFOQueue \<Rightarrow> string \<Rightarrow> details \<Rightarrow> rightResult outcome" where
  "applyRightIssue q symbol d =
     (let ratio' = parseRightRatio (ratio d) in
      if isNaN ratio' \<or> le64 ratio' (Num 0) then (Inl InvalidRightRatio, q)
      else
        (let price' = issuePrice d in
         if isNaN price' \<or> le64 price' (Num 0) then (Inl InvalidRightPrice, q)
         else
           (case holdings q symbol of
              None \<Rightarrow> (Inl (NoLotsFound symbol), q)
            | Some lots \<Rightarrow>
                if length lots = 0 then (Inl (NoLotsFound symbol), q)
                else
                  (let eligible = eligibleShares (exDate d) lots (Num 0) in
                   if eq64 eligible (Num 0)
                   then (Inl (NoSharesBeforeExDate (exDate d) symbol), q)
                   else
                     (let entitled = Math_floor (mul64 eligible ratio') in
                      if eq64 entitled (Num 0)
                      then (Inl (RightRatioTooSmall eligible ratio'), q)
                      else
                        (let newLot = rightLot symbol d ratio' price' eligible;
                             q' = q\<lparr>holdings := (holdings q)(symbol \<mapsto> lots @ [newLot])\<rparr>
                         in case getHoldings q' symbol of
                              None \<Rightarrow> (Inl TypeError, q')
                            | Some updatedHolding \<Rightarrow>
                                (Inr
                                   \<lparr>rr_symbol = symbol, rr_eligibleShares = eligible,
                                    rightSharesEntitled = entitled,
                                    rightPrice = price', rightRatio = ratio',
                                    totalCost = mul64 entitled price',
                                    rr_newTotalShares = totalQuantity updatedHolding,
                                    rr_newAvgCost = averageCost updatedHolding,
                                    newTotalCostBasis = h_totalCostBasis updatedHolding,
                                    rr_purchaseDate = purchaseDate newLot\<rparr>,
                                 q')))))))"

text \<open>
  The two reversals read \<open>action.symbol\<close>, \<open>action.result.bonusRatio\<close> and
  \<open>action.details.exDate\<close>, respectively \<open>action.symbol\<close>,
  \<open>action.result.rightSharesEntitled\<close> and \<open>action.result.purchaseDate\<close>: these are
  their arguments here.
\<close>

definition restoreLot :: "number \<Rightarrow> date \<Rightarrow> lot \<Rightarrow> lot" where
  \<comment> \<open>the loop body of \<open>_reverseBonusShares\<close>\<close>
  "restoreLot ratio' exDateObj lot =
     (if purchaseDate lot < exDateObj then
        (let currentQuantity = remainingQuantity lot;
             originalQuantity = Math_floor (div64 currentQuantity (add64 (Num 1) ratio'))
         in lot\<lparr>remainingQuantity := originalQuantity,
                price := div64 (mul64 currentQuantity (price lot)) originalQuantity\<rparr>)
      else lot)"

definition reverseBonusShares ::
  "FIFOQueue \<Rightarrow> string \<Rightarrow> number \<Rightarrow> date \<Rightarrow> unit outcome" where
  "reverseBonusShares q symbol ratio' exDateObj =
     (case holdings q symbol of
        None \<Rightarrow> (Inl (NoLotsFound symbol), q)
      | Some lots \<Rightarrow>
          (Inr (), q\<lparr>holdings := (holdings q)(symbol \<mapsto> map (restoreLot ratio' exDateObj) lots)\<rparr>))"

fun findIndex :: "('a \<Rightarrow> bool) \<Rightarrow> 'a list \<Rightarrow> nat option" where
  \<comment> \<open>\<open>Array.prototype.findIndex\<close>; \<open>None\<close> is \<open>-1\<close>\<close>
  "findIndex P [] = None"
| "findIndex P (x # xs) =
     (if P x then Some 0 else (case findIndex P xs of None \<Rightarrow> None | Some i \<Rightarrow> Some (i + 1)))"

definition isRightIssue :: "origin \<Rightarrow> bool" where
  \<comment> \<open>\<open>lot.originalTransaction.type === 'RIGHT_ISSUE'\<close>\<close>
  "isRightIssue origin =
     (case origin of Purchase t \<Rightarrow> txn_type t = ''RIGHT_ISSUE'' | RIGHT_ISSUE s e r p n \<Rightarrow> True)"

definition reverseRightIssue ::
  "FIFOQueue \<Rightarrow> string \<Rightarrow> number \<Rightarrow> date \<Rightarrow> unit outcome" where
  "reverseRightIssue q symbol entitled purchased =
     (case holdings q symbol of
        None \<Rightarrow> (Inl (NoLotsFound symbol), q)
      | Some lots \<Rightarrow>
          (case findIndex (\<lambda>lot. isRightIssue (originalTransaction lot)
                                 \<and> purchaseDate lot = purchased
                                 \<and> eq64 (quantity lot) entitled) lots of
             None \<Rightarrow> (Inl RightLotNotFound, q)
           | Some rightLotIndex \<Rightarrow>
               (let found = lots ! rightLotIndex in
                if \<not> eq64 (remainingQuantity found) (quantity found)
                then (Inl (RightSharesSold (sub64 (quantity found) (remainingQuantity found))), q)
                else (Inr (), q\<lparr>holdings := (holdings q)(symbol \<mapsto>
                                    take rightLotIndex lots @ drop (Suc rightLotIndex) lots)\<rparr>))))"


section \<open>First in, first out, as the specification words it\<close>

text \<open>
  The amount a sale takes from each lot of a queue, head first: the smaller of the lot's
  remaining quantity and the quantity still needed, and nothing where that is not above
  zero. The quantity still needed is reduced by each amount in turn, by a binary64
  subtraction.
\<close>

fun fifoTakes :: "number \<Rightarrow> lot list \<Rightarrow> number list" where
  "fifoTakes stillNeeded [] = []"
| "fifoTakes stillNeeded (l # ls) =
     (let m = Math_min (remainingQuantity l) stillNeeded;
          t = (if gt64 m (Num 0) then m else Num 0)
      in t # fifoTakes (sub64 stillNeeded t) ls)"

definition sum64 :: "number list \<Rightarrow> number" where
  \<comment> \<open>the sum as the source accumulates it: from zero, left to right, rounded at each step\<close>
  "sum64 xs = foldl add64 (Num 0) xs"

definition consumeLot :: "lot \<Rightarrow> number \<Rightarrow> lot" where
  "consumeLot l t = l\<lparr>remainingQuantity := sub64 (remainingQuantity l) t\<rparr>"

definition lotUsedEntry :: "date \<Rightarrow> lot \<Rightarrow> number \<Rightarrow> lotUsed" where
  "lotUsedEntry settle l t =
     \<lparr>lu_purchaseDate = purchaseDate l, lu_quantity = t, costPerShare = price l,
      costBasis = mul64 t (price l), lu_holdingPeriod = getHoldingPeriod (purchaseDate l) settle\<rparr>"

definition touched :: "lot list \<Rightarrow> number list \<Rightarrow> (lot \<times> number) list" where
  \<comment> \<open>the lots a sale takes an amount above zero from, with the amount\<close>
  "touched lots ts = filter (\<lambda>(l, t). gt64 t (Num 0)) (zip lots ts)"

definition queueOf :: "FIFOQueue \<Rightarrow> string \<Rightarrow> lot list" where
  \<comment> \<open>the symbol's queue; a symbol without an entry has no lots\<close>
  "queueOf q symbol = (case holdings q symbol of None \<Rightarrow> [] | Some lots \<Rightarrow> lots)"

definition available :: "lot list \<Rightarrow> number" where
  \<comment> \<open>\<open>totalAvailable\<close>: the remaining quantities added up from zero, head first\<close>
  "available lots = sum64 (map remainingQuantity lots)"

definition fifoSale :: "string \<Rightarrow> number \<Rightarrow> number \<Rightarrow> date \<Rightarrow> lot list \<Rightarrow> saleResult" where
  \<comment> \<open>the sale record of quantity \<open>qty\<close> at \<open>prc\<close>, settled on \<open>settle\<close>, from a queue\<close>
  "fifoSale symbol qty prc settle lots =
     (let used = touched lots (fifoTakes qty lots);
          basis = sum64 (map (\<lambda>(l, t). mul64 t (price l)) used)
      in \<lparr>sr_symbol = symbol, quantitySold = qty, sellPrice = prc,
          saleProceeds = mul64 qty prc, totalCostBasis = basis,
          capitalGain = sub64 (mul64 qty prc) basis,
          lotsUsed = map (\<lambda>(l, t). lotUsedEntry settle l t) used,
          saleDate = settle, isSimulation = False\<rparr>)"

definition fifoKept :: "number \<Rightarrow> lot list \<Rightarrow> lot list" where
  \<comment> \<open>the queue after the sale: every lot less what was taken, the empty lots pruned\<close>
  "fifoKept qty lots =
     filter (\<lambda>l. gt64 (remainingQuantity l) (Num 0)) (map2 consumeLot lots (fifoTakes qty lots))"

section \<open>Example ledgers\<close>

text \<open>
  The worked example of the README: 100 OGDC bought at 100 on 2025-01-01 and 50 at 120
  on 2025-02-01, which settle on 2025-01-03 and 2025-02-04.
\<close>

definition buy1 :: transaction where
  "buy1 = \<lparr>txn_id = 1, txn_type = ''BUY'', txn_symbol = ''OGDC'', txn_quantity = Num 100,
            txn_price = Num 100, tradeDate = 1735689600000, settlementDate = 1735862400000,
            totalValue = Num 10000, timestamp = 0\<rparr>"

definition buy2 :: transaction where
  "buy2 = \<lparr>txn_id = 2, txn_type = ''BUY'', txn_symbol = ''OGDC'', txn_quantity = Num 50,
            txn_price = Num 120, tradeDate = 1738368000000, settlementDate = 1738627200000,
            totalValue = Num 6000, timestamp = 0\<rparr>"

definition ogdcLots :: "lot list" where
  "ogdcLots =
     [\<lparr>quantity = Num 100, price = Num 100, purchaseDate = 1735862400000,
       remainingQuantity = Num 100, originalTransaction = Purchase buy1\<rparr>,
      \<lparr>quantity = Num 50, price = Num 120, purchaseDate = 1738627200000,
       remainingQuantity = Num 50, originalTransaction = Purchase buy2\<rparr>]"

definition ogdcQueue :: FIFOQueue where
  "ogdcQueue = \<lparr>holdings = [''OGDC'' \<mapsto> ogdcLots], transactions = [buy1, buy2],
                 realizedGains = []\<rparr>"

text \<open>
  One share of MEBL bought at 50 and ten at 200, on the same two days; lots of HBL bought
  at 100 on the first day, of the given sizes.
\<close>

definition meblLots :: "lot list" where
  "meblLots =
     [\<lparr>quantity = Num 1, price = Num 50, purchaseDate = 1735862400000,
       remainingQuantity = Num 1,
       originalTransaction = Purchase (buy1\<lparr>txn_symbol := ''MEBL'', txn_quantity := Num 1,
                                          txn_price := Num 50, totalValue := Num 50\<rparr>)\<rparr>,
      \<lparr>quantity = Num 10, price = Num 200, purchaseDate = 1738627200000,
       remainingQuantity = Num 10,
       originalTransaction = Purchase (buy2\<lparr>txn_symbol := ''MEBL'', txn_quantity := Num 10,
                                          txn_price := Num 200, totalValue := Num 2000\<rparr>)\<rparr>]"

definition meblQueue :: FIFOQueue where
  "meblQueue = \<lparr>holdings = [''MEBL'' \<mapsto> meblLots], transactions = [], realizedGains = []\<rparr>"

definition lossSale :: saleResult where
  "lossSale =
     \<lparr>sr_symbol = ''MEBL'', quantitySold = Num 11, sellPrice = Num 100,
      saleProceeds = Num 1100, totalCostBasis = Num 2050, capitalGain = Num (- 950),
      lotsUsed =
        [\<lparr>lu_purchaseDate = 1735862400000, lu_quantity = Num 1, costPerShare = Num 50,
          costBasis = Num 50, lu_holdingPeriod = \<lparr>days = 60, isLongTerm = False\<rparr>\<rparr>,
         \<lparr>lu_purchaseDate = 1738627200000, lu_quantity = Num 10, costPerShare = Num 200,
          costBasis = Num 2000, lu_holdingPeriod = \<lparr>days = 28, isLongTerm = False\<rparr>\<rparr>],
      saleDate = 1741046400000, isSimulation = False\<rparr>"

definition hblLot :: "number \<Rightarrow> lot" where
  \<comment> \<open>a lot of HBL bought at 100 and settled on 2025-01-03, of the given size, unsold\<close>
  "hblLot n =
     \<lparr>quantity = n, price = Num 100, purchaseDate = 1735862400000, remainingQuantity = n,
      originalTransaction = Purchase (buy1\<lparr>txn_symbol := ''HBL'', txn_quantity := n,
                                         totalValue := mul64 n (Num 100)\<rparr>)\<rparr>"

definition hblQueue :: "number list \<Rightarrow> FIFOQueue" where
  "hblQueue ns = \<lparr>holdings = [''HBL'' \<mapsto> map hblLot ns], transactions = [],
                  realizedGains = []\<rparr>"

definition bonusDetails :: "ratioInput \<Rightarrow> details" where
  \<comment> \<open>a bonus with ex-date 2025-03-01; it has no price\<close>
  "bonusDetails r = \<lparr>ratio = r, issuePrice = NaN, exDate = 1740787200000,
                      subscriptionDate = None\<rparr>"

definition rightDetails :: "ratioInput \<Rightarrow> details" where
  \<comment> \<open>a rights issue at 80 with ex-date 2025-03-01 and no subscription date\<close>
  "rightDetails r = \<lparr>ratio = r, issuePrice = Num 80, exDate = 1740787200000,
                      subscriptionDate = None\<rparr>"

definition negativeBuy :: transaction where
  "negativeBuy = \<lparr>txn_id = 1, txn_type = ''BUY'', txn_symbol = ''OGDC'',
                   txn_quantity = Num (- 5), txn_price = Num 100, tradeDate = 1735689600000,
                   settlementDate = 1735862400000, totalValue = Num (- 500), timestamp = 0\<rparr>"

section \<open>Replay\<close>

text \<open>
  The replay of a transactions list through a fresh queue: every recorded transaction is
  given to \<open>addTransaction\<close> again, in order. The source has no function for it; it is
  the reconstruction the specification speaks of.
\<close>

definition replay :: "transaction list \<Rightarrow> FIFOQueue" where
  "replay ts =
     foldl (\<lambda>q t. snd (addTransaction (timestamp t) q (txn_type t) (txn_symbol t)
                          (txn_quantity t) (txn_price t) (tradeDate t)))
       constructor ts"


section \<open>Rounding\<close>

lemma powi_bitlen:
  assumes "0 < (p::int)"
  shows "(2::rat) powi (bitlen p - 1) \<le> of_int p" and "of_int p < (2::rat) powi bitlen p"
proof -
  have b: "0 < bitlen p"
  proof (rule ccontr)
    assume "\<not> 0 < bitlen p"
    then have "nat (bitlen p) = 0" by simp
    with bitlen_bounds [OF assms] have "p < 1" by simp
    with assms show False by simp
  qed
  from bitlen_bounds [OF assms]
  have lo: "2 ^ nat (bitlen p - 1) \<le> p" and hi: "p < 2 ^ nat (bitlen p)" by simp_all
  have "(2::rat) powi (bitlen p - 1) = of_int (2 ^ nat (bitlen p - 1))"
    using b by (simp add: power_int_def)
  also have "\<dots> \<le> of_int p" using lo by (simp only: of_int_le_iff)
  finally show "(2::rat) powi (bitlen p - 1) \<le> of_int p" .
  have "(of_int p :: rat) < of_int (2 ^ nat (bitlen p))" using hi by (simp only: of_int_less_iff)
  also have "\<dots> = 2 powi bitlen p" using b by (simp add: power_int_def)
  finally show "of_int p < (2::rat) powi bitlen p" .
qed

lemma ilog2_bounds:
  assumes "0 < x"
  shows "2 powi (ilog2 x) \<le> x" and "x < 2 powi (ilog2 x + 1)"
proof -
  obtain p q where pq: "quotient_of x = (p, q)" by (cases "quotient_of x")
  have q: "0 < q" using quotient_of_denom_pos [OF pq] .
  have x: "x = of_int p / of_int q" using quotient_of_div [OF pq] .
  have p: "0 < p" using assms q by (simp add: x zero_less_divide_iff)
  define d where "d = bitlen p - bitlen q"
  have qr: "(0::rat) < of_int q" using q by simp
  have up: "x < 2 powi (d + 1)"
  proof -
    have "of_int p < (2::rat) powi bitlen p" by (rule powi_bitlen(2) [OF p])
    also have "\<dots> = 2 powi (d + 1) * 2 powi (bitlen q - 1)"
      by (simp add: d_def flip: power_int_add)
    also have "\<dots> \<le> 2 powi (d + 1) * of_int q"
      by (intro mult_left_mono powi_bitlen(1) [OF q]) simp
    finally show ?thesis using qr by (simp add: x pos_divide_less_eq)
  qed
  have lo: "2 powi (d - 1) < x"
  proof -
    have "(2::rat) powi (d - 1) * of_int q < 2 powi (d - 1) * 2 powi bitlen q"
      by (intro mult_strict_left_mono powi_bitlen(2) [OF q]) simp
    also have "\<dots> = 2 powi (bitlen p - 1)"
      by (simp add: d_def flip: power_int_add)
    also have "\<dots> \<le> of_int p" by (rule powi_bitlen(1) [OF p])
    finally show ?thesis using qr by (simp add: x pos_less_divide_eq)
  qed
  have e: "ilog2 x = (if 2 powi d \<le> x then d else d - 1)"
    by (simp add: ilog2_def pq d_def Let_def)
  show "2 powi (ilog2 x) \<le> x" using lo by (simp add: e)
  show "x < 2 powi (ilog2 x + 1)" using up by (auto simp: e)
qed

lemma powi2_less_imp_less: "(2::rat) powi a < 2 powi b \<Longrightarrow> a < b"
  using power_int_increasing [of b a "2::rat"] by (cases "a < b") simp_all

lemma ilog2_unique:
  assumes "2 powi e \<le> x" and "x < 2 powi (e + 1)"
  shows "ilog2 x = e"
proof -
  have "(0::rat) < 2 powi e" by simp
  then have pos: "0 < x" using assms(1) by (rule less_le_trans)
  note b = ilog2_bounds [OF pos]
  have "(2::rat) powi e < 2 powi (ilog2 x + 1)" using assms(1) b(2) by simp
  then have 1: "e < ilog2 x + 1" by (rule powi2_less_imp_less)
  have "(2::rat) powi ilog2 x < 2 powi (e + 1)" using assms(2) b(1) by simp
  then have 2: "ilog2 x < e + 1" by (rule powi2_less_imp_less)
  from 1 2 show ?thesis by simp
qed

lemma roundHalfEven_of_int: "roundHalfEven (of_int n) = n"
  by (simp add: roundHalfEven_def)

lemma roundHalfEven_error: "\<bar>of_int (roundHalfEven y) - y\<bar> \<le> 1 / 2"
proof -
  have "of_int \<lfloor>y\<rfloor> \<le> y" "y < of_int \<lfloor>y\<rfloor> + 1" by linarith+
  then show ?thesis by (auto simp: roundHalfEven_def Let_def abs_if; linarith)
qed

lemma roundHalfEven_le: "y \<le> of_int m \<Longrightarrow> roundHalfEven y \<le> m"
proof -
  assume a: "y \<le> of_int m"
  then have f: "\<lfloor>y\<rfloor> \<le> m" by (simp add: floor_le_iff)
  show ?thesis
  proof (cases "\<lfloor>y\<rfloor> = m")
    case True
    then have "y - of_int \<lfloor>y\<rfloor> \<le> 0" using a by simp
    then show ?thesis using True by (simp add: roundHalfEven_def Let_def)
  next
    case False
    with f have "\<lfloor>y\<rfloor> + 1 \<le> m" by simp
    then show ?thesis using f by (simp add: roundHalfEven_def Let_def)
  qed
qed

lemma roundHalfEven_ge: "of_int m \<le> y \<Longrightarrow> m \<le> roundHalfEven y"
proof -
  assume "of_int m \<le> y"
  then have "m \<le> \<lfloor>y\<rfloor>" by (simp add: le_floor_iff)
  then show ?thesis by (simp add: roundHalfEven_def Let_def)
qed

lemma binary64_zero [simp]: "binary64 0 = Num 0"
  by (simp add: binary64_def)

lemma binary64_not_NaN [simp]: "binary64 x \<noteq> NaN"
  by (simp add: binary64_def Let_def)

lemma binary64_nonneg:
  assumes "0 \<le> x"
  shows "binary64 x = PosInfinity \<or> (\<exists>y. 0 \<le> y \<and> binary64 x = Num y)"
proof -
  define u :: rat where "u = 2 powi (max (ilog2 \<bar>x\<bar>) (- 1022) - 52)"
  have u: "0 < u" by (simp add: u_def)
  have "of_int 0 \<le> x / u" using assms u by simp
  then have "0 \<le> roundHalfEven (x / u)" by (rule roundHalfEven_ge)
  then have y: "0 \<le> of_int (roundHalfEven (x / u)) * u" using u by simp
  have big: "(0::rat) < 2 powi 1024" by simp
  have "\<not> of_int (roundHalfEven (x / u)) * u \<le> - (2 powi 1024)" using y big by linarith
  moreover have "\<not> x < 0" using assms by simp
  ultimately show ?thesis
    unfolding binary64_def Let_def u_def [symmetric] using y by auto
qed

lemma binary64_nonpos:
  assumes "x \<le> 0"
  shows "binary64 x = NegInfinity \<or> binary64 x = NegZero \<or> (\<exists>y. y \<le> 0 \<and> binary64 x = Num y)"
proof -
  define u :: rat where "u = 2 powi (max (ilog2 \<bar>x\<bar>) (- 1022) - 52)"
  have u: "0 < u" by (simp add: u_def)
  have "x / u \<le> of_int 0" using assms u by (simp add: divide_le_0_iff)
  then have "roundHalfEven (x / u) \<le> 0" by (rule roundHalfEven_le)
  then have y: "of_int (roundHalfEven (x / u)) * u \<le> 0" using u by (simp add: mult_le_0_iff)
  have big: "(0::rat) < 2 powi 1024" by simp
  have "\<not> 2 powi 1024 \<le> of_int (roundHalfEven (x / u)) * u" using y big by linarith
  then show ?thesis
    unfolding binary64_def Let_def u_def [symmetric] using y by auto
qed

lemma binary64_finite:
  assumes "x \<noteq> 0" and "max (ilog2 \<bar>x\<bar>) (- 1022) = e"
    and "\<bar>of_int (roundHalfEven (x / 2 powi (e - 52))) * 2 powi (e - 52) :: rat\<bar> < 2 powi 1024"
    and "roundHalfEven (x / 2 powi (e - 52)) \<noteq> 0"
  shows "binary64 x = Num (of_int (roundHalfEven (x / 2 powi (e - 52))) * 2 powi (e - 52))"
proof -
  define y :: rat where "y = of_int (roundHalfEven (x / 2 powi (e - 52))) * 2 powi (e - 52)"
  have "\<bar>y\<bar> < 2 powi 1024" using assms(3) by (simp only: y_def)
  then have "\<not> 2 powi 1024 \<le> y" and "\<not> y \<le> - (2 powi 1024)" by linarith+
  moreover have "y \<noteq> 0" using assms(4) by (simp add: y_def)
  ultimately show ?thesis
    unfolding binary64_def Let_def assms(2) y_def [symmetric] using assms(1) by simp
qed

text \<open>
  The rounding of a number in the normal range, given its exponent: this is how the
  roundings of the examples are evaluated.
\<close>

lemma binary64_eval:
  assumes "2 powi e \<le> \<bar>x\<bar>" and "\<bar>x\<bar> < 2 powi (e + 1)" and "- 1022 \<le> e" and "e \<le> 1022"
  shows "binary64 x = Num (of_int (roundHalfEven (x / 2 powi (e - 52))) * 2 powi (e - 52))"
proof -
  define u :: rat where "u = 2 powi (e - 52)"
  have u: "0 < u" by (simp add: u_def)
  have il: "ilog2 \<bar>x\<bar> = e" using assms(1,2) by (rule ilog2_unique)
  have "(0::rat) < 2 powi e" by simp
  with assms(1) have "0 < \<bar>x\<bar>" by linarith
  then have nz: "x \<noteq> 0" by simp
  have top: "(2::rat) powi (e + 1) = of_int (2 ^ 53) * u"
  proof -
    have "(2::rat) powi (53 + (e - 52)) = 2 powi 53 * 2 powi (e - 52)"
      by (rule power_int_add) simp
    then show ?thesis by (simp add: u_def add.commute)
  qed
  have bot: "(2::rat) powi e = of_int (2 ^ 52) * u"
  proof -
    have "(2::rat) powi (52 + (e - 52)) = 2 powi 52 * 2 powi (e - 52)"
      by (rule power_int_add) simp
    then show ?thesis by (simp add: u_def)
  qed
  have "\<bar>x\<bar> / u < of_int (2 ^ 53)"
    using assms(2) u by (simp add: top pos_divide_less_eq)
  then have hi: "x / u \<le> of_int (2 ^ 53)" and lo: "of_int (- (2 ^ 53)) \<le> x / u"
    using u by (simp_all add: abs_if divide_simps split: if_splits) (linarith+)?
  have n_hi: "roundHalfEven (x / u) \<le> 2 ^ 53" using hi by (rule roundHalfEven_le)
  have n_lo: "- (2 ^ 53) \<le> roundHalfEven (x / u)" using lo by (rule roundHalfEven_ge)
  have "\<bar>of_int (roundHalfEven (x / u)) * u\<bar> \<le> of_int (2 ^ 53) * u"
    using n_hi n_lo u by (simp add: abs_mult abs_le_iff)
  also have "\<dots> = 2 powi (e + 1)" by (simp add: top)
  also have "\<dots> \<le> 2 powi 1023" using assms(4) by (intro power_int_increasing) simp_all
  also have "\<dots> < (2::rat) powi 1024" by (intro power_int_strict_increasing) simp_all
  finally have small: "\<bar>of_int (roundHalfEven (x / u)) * u\<bar> < 2 powi 1024" .
  have "of_int (2 ^ 52) \<le> \<bar>x\<bar> / u"
    using assms(1) u by (simp add: bot pos_le_divide_eq)
  then have "of_int (2 ^ 52) \<le> \<bar>x / u\<bar>" using u by simp
  then have one: "(1::rat) \<le> \<bar>x / u\<bar>" by simp
  have away: "roundHalfEven (x / u) \<noteq> 0"
  proof
    assume z: "roundHalfEven (x / u) = 0"
    define r where "r = x / u"
    from roundHalfEven_error [of r] z have "\<bar>r\<bar> \<le> 1 / 2" by (simp add: r_def)
    moreover from one have "1 \<le> \<bar>r\<bar>" by (simp only: r_def)
    ultimately show False by linarith
  qed
  have m: "max (ilog2 \<bar>x\<bar>) (- 1022) = e" using assms(3) by (simp add: il)
  show ?thesis
    by (rule binary64_finite [OF nz m small [unfolded u_def] away [unfolded u_def]])
qed

lemma binary64_of_int:
  assumes "\<bar>k\<bar> \<le> 2 ^ 53"
  shows "binary64 (of_int k) = Num (of_int k)"
proof (cases "k = 0")
  case True
  then show ?thesis by simp
next
  case False
  define x :: rat where "x = of_int k"
  have pos: "0 < \<bar>x\<bar>" using False by (simp add: x_def)
  define e where "e = ilog2 \<bar>x\<bar>"
  note b = ilog2_bounds [OF pos, folded e_def]
  have x1: "1 \<le> \<bar>x\<bar>" using False by (simp add: x_def flip: of_int_abs)
  have xk: "\<bar>x\<bar> \<le> 2 powi 53"
  proof -
    have "\<bar>x\<bar> = of_int \<bar>k\<bar>" by (simp add: x_def)
    also have "\<dots> \<le> of_int (2 ^ 53)" using assms by (simp only: of_int_le_iff)
    finally show ?thesis by simp
  qed
  have "(2::rat) powi 0 < 2 powi (e + 1)" using x1 b(2) by simp
  then have e0: "0 \<le> e" using powi2_less_imp_less [of 0 "e + 1"] by simp
  have "(2::rat) powi e < 2 powi 54"
  proof -
    have "(2::rat) powi e \<le> 2 powi 53" using b(1) xk by simp
    also have "\<dots> < 2 powi 54" by simp
    finally show ?thesis .
  qed
  then have e53: "e \<le> 53" using powi2_less_imp_less [of e 54] by simp
  have m: "max e (- 1022) = e" using e0 by simp
  define u :: rat where "u = 2 powi (e - 52)"
  have u: "0 < u" by (simp add: u_def)
  have int: "\<exists>n. x / u = of_int n"
  proof (cases "e \<le> 52")
    case True
    have "x / u = x * 2 powi (52 - e)"
      by (simp add: u_def power_int_diff field_simps)
    also have "\<dots> = of_int (k * 2 ^ nat (52 - e))"
      using True by (simp add: x_def power_int_nonneg_exp)
    finally show ?thesis by blast
  next
    case False
    with e53 have e: "e = 53" by simp
    then have "\<bar>x\<bar> = 2 powi 53" using b(1) xk by simp
    then have "\<bar>k\<bar> = 2 ^ 53" by (simp add: x_def flip: of_int_abs)
    then have "k = 2 ^ 53 \<or> k = - (2 ^ 53)" by (simp add: abs_if split: if_splits)
    then have "k = 2 * (k div 2)" by (rule disjE) simp_all
    then have "x / u = of_int (k div 2)"
      by (simp add: u_def e x_def)
    then show ?thesis by blast
  qed
  then obtain n where n: "x / u = of_int n" by blast
  have y: "of_int (roundHalfEven (x / u)) * u = x"
    using u by (simp add: n roundHalfEven_of_int) (metis n nonzero_eq_divide_eq less_irrefl)
  have xnz: "x \<noteq> 0" using pos by simp
  have "\<bar>x\<bar> < 2 powi 1024"
    using xk by (rule le_less_trans) simp
  then have "\<bar>of_int (roundHalfEven (x / 2 powi (e - 52))) * 2 powi (e - 52) :: rat\<bar> < 2 powi 1024"
    by (simp only: y [unfolded u_def])
  moreover have "max (ilog2 \<bar>x\<bar>) (- 1022) = e" using m by (simp only: e_def)
  moreover have "roundHalfEven (x / 2 powi (e - 52)) \<noteq> 0"
    using y [unfolded u_def] xnz by auto
  ultimately have "binary64 x = Num (of_int (roundHalfEven (x / 2 powi (e - 52))) * 2 powi (e - 52))"
    using xnz by (intro binary64_finite)
  also have "\<dots> = Num x" by (simp only: y [unfolded u_def])
  finally show ?thesis by (simp only: x_def)
qed

lemma binary64_value:
  assumes "binary64 x = Num y" and "x \<noteq> 0"
  shows "y = of_int (roundHalfEven (x / 2 powi (max (ilog2 \<bar>x\<bar>) (- 1022) - 52)))
               * 2 powi (max (ilog2 \<bar>x\<bar>) (- 1022) - 52)"
  using assms by (simp add: binary64_def Let_def split: if_splits)

text \<open>
  The relative error of a rounding to a finite number, outside the subnormal range, is at
  most \<open>2 powi - 53\<close>.
\<close>

lemma binary64_relative_error:
  assumes "binary64 x = Num y" and "2 powi (- 1022) \<le> \<bar>x\<bar>"
  shows "\<bar>y - x\<bar> \<le> \<bar>x\<bar> / 2 ^ 53"
proof -
  have "(0::rat) < 2 powi (- 1022)" by simp
  with assms(2) have pos: "0 < \<bar>x\<bar>" by linarith
  then have nz: "x \<noteq> 0" by simp
  define e where "e = ilog2 \<bar>x\<bar>"
  note b = ilog2_bounds [OF pos, folded e_def]
  have "(2::rat) powi (- 1022) < 2 powi (e + 1)" using assms(2) b(2) by simp
  then have "- 1022 < e + 1" by (rule powi2_less_imp_less)
  then have m: "max e (- 1022) = e" by simp
  define u :: rat where "u = 2 powi (e - 52)"
  have u: "0 < u" by (simp add: u_def)
  define k where "k = roundHalfEven (x / u)"
  have y: "y = of_int k * u"
    using binary64_value [OF assms(1) nz] by (simp add: e_def [symmetric] m u_def k_def)
  have "y - x = (of_int k - x / u) * u" using u by (simp add: y algebra_simps)
  then have "\<bar>y - x\<bar> = \<bar>of_int k - x / u\<bar> * u" using u by (simp add: abs_mult)
  also have "\<dots> \<le> 1 / 2 * u"
    using roundHalfEven_error [of "x / u"] u by (intro mult_right_mono) (simp_all add: k_def)
  also have "\<dots> = 2 powi e / 2 ^ 53"
  proof -
    have "(2::rat) powi (53 + (e - 53)) = 2 powi 53 * 2 powi (e - 53)"
      by (rule power_int_add) simp
    moreover have "(2::rat) powi (1 + (e - 53)) = 2 powi 1 * 2 powi (e - 53)"
      by (rule power_int_add) simp
    moreover have "1 + (e - 53) = e - 52" by simp
    ultimately show ?thesis by (simp add: u_def)
  qed
  also have "\<dots> \<le> \<bar>x\<bar> / 2 ^ 53" using b(1) by (simp add: divide_right_mono)
  finally show ?thesis .
qed

lemma binary64_numeral [simp]:
  "numeral n \<le> (9007199254740992::int) \<Longrightarrow> binary64 (numeral n) = Num (numeral n)"
  using binary64_of_int [of "numeral n"] by simp

lemma binary64_neg_numeral [simp]:
  "numeral n \<le> (9007199254740992::int) \<Longrightarrow> binary64 (- numeral n) = Num (- numeral n)"
  using binary64_of_int [of "- numeral n"] by simp

lemma binary64_one [simp]: "binary64 1 = Num 1"
  using binary64_of_int [of 1] by simp

lemma floor_divide_numeral_rat:
  "\<lfloor>numeral a / numeral b :: rat\<rfloor> = numeral a div numeral b"
  using floor_divide_of_int_eq [of "numeral a" "numeral b", where ?'a = rat] by simp

lemma floor_divide_neg_numeral_rat:
  "\<lfloor>- (numeral a / numeral b) :: rat\<rfloor> = - numeral a div numeral b"
  using floor_divide_of_int_eq [of "- numeral a" "numeral b", where ?'a = rat] by simp

section \<open>Arithmetic on numbers\<close>

lemma sub64_Num:
  "sub64 (Num x) (Num y) = (if y = 0 then Num x else binary64 (x - y))"
  by (simp add: sub64_def)

lemma mul64_Num:
  "mul64 (Num x) (Num y) =
     (if x = 0 \<or> y = 0 then signedZero ((x < 0) \<noteq> (y < 0)) else binary64 (x * y))"
  by (simp add: mul64_def)

lemma div64_Num:
  "div64 (Num x) (Num y) =
     (if y = 0 then (if x = 0 then NaN else signedInfinity (x < 0))
      else if x = 0 then signedZero (y < 0) else binary64 (x / y))"
  by (simp add: div64_def)

text \<open>
  A price rescaled as \<open>(a * p) / n\<close>: \<open>n\<close> times the new price is \<open>a * p\<close> up
  to the two roundings.
\<close>

lemma rescale_error:
  assumes "mul64 (Num a) (Num p) = Num m" and "div64 (Num m) (Num n) = Num p'"
      and "2 powi (- 1022) \<le> \<bar>a * p\<bar>" and "2 powi (- 1022) \<le> \<bar>m / n\<bar>"
  shows "\<bar>n * p' - a * p\<bar> \<le> \<bar>a * p\<bar> * (2 / 2 ^ 53 + 1 / 2 ^ 106)"
proof -
  have small: "(0::rat) < 2 powi (- 1022)" by simp
  from assms(3) small have ap: "a * p \<noteq> 0" by auto
  then have "a \<noteq> 0" "p \<noteq> 0" by auto
  with assms(1) have "binary64 (a * p) = Num m" by (simp add: mul64_Num)
  from binary64_relative_error [OF this assms(3)]
  have e1: "\<bar>m - a * p\<bar> \<le> \<bar>a * p\<bar> / 2 ^ 53" .
  from assms(4) small have mn: "m / n \<noteq> 0" by auto
  then have n: "n \<noteq> 0" and m: "m \<noteq> 0" by auto
  with assms(2) have "binary64 (m / n) = Num p'" by (simp add: div64_Num)
  from binary64_relative_error [OF this assms(4)]
  have "\<bar>p' - m / n\<bar> \<le> \<bar>m / n\<bar> / 2 ^ 53" .
  then have "\<bar>n\<bar> * \<bar>p' - m / n\<bar> \<le> \<bar>n\<bar> * (\<bar>m / n\<bar> / 2 ^ 53)"
    by (intro mult_left_mono) simp_all
  moreover have "\<bar>n\<bar> * \<bar>p' - m / n\<bar> = \<bar>n * p' - m\<bar>"
    using n by (simp add: abs_mult [symmetric] algebra_simps)
  moreover have "\<bar>n\<bar> * (\<bar>m / n\<bar> / 2 ^ 53) = \<bar>m\<bar> / 2 ^ 53"
    using n by (simp add: abs_divide)
  ultimately have e2: "\<bar>n * p' - m\<bar> \<le> \<bar>m\<bar> / 2 ^ 53" by simp
  have "\<bar>m\<bar> \<le> \<bar>a * p\<bar> + \<bar>m - a * p\<bar>" by linarith
  with e1 have "\<bar>m\<bar> \<le> \<bar>a * p\<bar> + \<bar>a * p\<bar> / 2 ^ 53" by linarith
  then have "\<bar>m\<bar> / 2 ^ 53 \<le> (\<bar>a * p\<bar> + \<bar>a * p\<bar> / 2 ^ 53) / 2 ^ 53"
    by (rule divide_right_mono) simp
  with e2 have e3: "\<bar>n * p' - m\<bar> \<le> (\<bar>a * p\<bar> + \<bar>a * p\<bar> / 2 ^ 53) / 2 ^ 53" by linarith
  have "\<bar>n * p' - a * p\<bar> \<le> \<bar>n * p' - m\<bar> + \<bar>m - a * p\<bar>" by linarith
  with e1 e3 have "\<bar>n * p' - a * p\<bar>
      \<le> (\<bar>a * p\<bar> + \<bar>a * p\<bar> / 2 ^ 53) / 2 ^ 53 + \<bar>a * p\<bar> / 2 ^ 53" by linarith
  also have "\<dots> = \<bar>a * p\<bar> * (2 / 2 ^ 53 + 1 / 2 ^ 106)"
    by (simp add: field_simps)
  finally show ?thesis .
qed

lemma gt64_Num [simp]: "gt64 (Num x) (Num y) = (y < x)"
  by (simp add: gt64_def)

lemma le64_Num [simp]: "le64 (Num x) (Num y) = (x \<le> y)"
  by (auto simp: le64_def)

lemma Math_min_Num [simp]: "Math_min (Num x) (Num y) = Num (min x y)"
  by (simp add: Math_min_def min_def)

lemma Math_max_Num [simp]: "Math_max (Num x) (Num y) = Num (max x y)"
  by (simp add: Math_max_def max_def)

lemma sub64_zero [simp]: "sub64 a (Num 0) = a"
  by (cases a) (simp_all add: sub64_def)

lemma sub64_self: "\<not> gt64 (sub64 a a) (Num 0)"
  by (cases a) (simp_all add: sub64_def gt64_def)

lemma Math_min_cases: "Math_min a b = a \<or> Math_min a b = b \<or> Math_min a b = NaN"
  by (simp add: Math_min_def)

lemma gt64_NaN [simp]: "\<not> gt64 NaN b" "\<not> gt64 a NaN"
  by (cases b; simp add: gt64_def) (cases a; simp add: gt64_def)

lemma Math_min_not_positive:
  "\<not> gt64 b (Num 0) \<Longrightarrow> \<not> gt64 (Math_min a b) (Num 0)"
  by (cases a; cases b) (auto simp: Math_min_def gt64_def)

lemma Math_min_positive:
  "gt64 (Math_min a b) (Num 0) \<Longrightarrow> gt64 a (Num 0) \<and> gt64 b (Num 0)"
  by (cases a; cases b) (auto simp: Math_min_def gt64_def split: if_splits)


section \<open>The consuming loops\<close>

lemma toUpperCase_SELL: "toUpperCase ''SELL'' = ''SELL''"
  by code_simp

lemma toUpperCase_BUY: "toUpperCase ''BUY'' = ''BUY''"
  by code_simp

lemma toUpperCase_OGDC: "toUpperCase ''OGDC'' = ''OGDC''" "toUpperCase ''ogdc'' = ''OGDC''"
  by code_simp+

lemma toUpperCase_HBL: "toUpperCase ''HBL'' = ''HBL''"
  by code_simp

lemma toUpperCase_MEBL: "toUpperCase ''MEBL'' = ''MEBL''"
  by code_simp

lemma foldl_add64_remainingQuantity:
  "foldl (\<lambda>sum lot. add64 sum (remainingQuantity lot)) a lots =
     foldl add64 a (map remainingQuantity lots)"
  by (induction lots arbitrary: a) simp_all

lemma totalAvailable_eq:
  "foldl (\<lambda>sum lot. add64 sum (remainingQuantity lot)) (Num 0) lots = available lots"
  by (simp add: available_def sum64_def foldl_add64_remainingQuantity)

lemma length_fifoTakes: "length (fifoTakes need ls) = length ls"
  by (induction ls arbitrary: need) (simp_all add: Let_def)

lemma fifoTakes_nonpos:
  "\<not> gt64 need (Num 0) \<Longrightarrow> fifoTakes need ls = map (\<lambda>_. Num 0) ls"
  by (induction ls arbitrary: need) (simp_all add: Let_def Math_min_not_positive)

lemma consumeLot_zero: "consumeLot l (Num 0) = l"
  by (simp add: consumeLot_def)

lemma map2_consumeLot_zero: "map2 consumeLot ls (map (\<lambda>_. Num 0) ls) = ls"
  by (induction ls) (simp_all add: consumeLot_zero)

lemma touched_zero: "touched ls (map (\<lambda>_. Num 0) ls) = []"
  by (induction ls) (simp_all add: touched_def)

lemma foldl_sub64_zero: "foldl sub64 need (map (\<lambda>_. Num 0) ls) = need"
  by (induction ls) simp_all

lemma touched_Cons:
  "touched (l # ls) (t # ts) =
     (if gt64 t (Num 0) then (l, t) # touched ls ts else touched ls ts)"
  by (simp add: touched_def)

lemma fifoTakes_nth:
  "i < length ls \<Longrightarrow>
   fifoTakes need ls ! i =
     (let m = Math_min (remainingQuantity (ls ! i)) (foldl sub64 need (take i (fifoTakes need ls)))
      in if gt64 m (Num 0) then m else Num 0)"
proof (induction ls arbitrary: need i)
  case Nil
  then show ?case by simp
next
  case (Cons l ls)
  show ?case
  proof (cases i)
    case 0
    then show ?thesis by (simp add: Let_def)
  next
    case (Suc k)
    with Cons.prems have "k < length ls" by simp
    from Cons.IH [OF this] show ?thesis
      using Suc by (simp add: Let_def)
  qed
qed

lemma fifoTakes_positive_needs:
  "j < length ls \<Longrightarrow> gt64 (fifoTakes need ls ! j) (Num 0) \<Longrightarrow> gt64 need (Num 0)"
  using fifoTakes_nonpos [of need ls] by (cases "gt64 need (Num 0)") simp_all

lemma take_leaves_nothing:
  assumes "gt64 (sub64 need t) (Num 0)"
      and "t = (if gt64 (Math_min r need) (Num 0) then Math_min r need else Num 0)"
  shows "\<not> gt64 (sub64 r t) (Num 0)"
proof (cases "gt64 (Math_min r need) (Num 0)")
  case True
  then have t: "t = Math_min r need" using assms(2) by simp
  from True have "Math_min r need \<noteq> NaN" by auto
  then have "t = r \<or> t = need" using Math_min_cases [of r need] t by auto
  moreover have "t \<noteq> need" using assms(1) sub64_self [of need] by auto
  ultimately have "t = r" by simp
  then show ?thesis using sub64_self [of r] by simp
next
  case False
  then have t: "t = Num 0" using assms(2) by simp
  with assms(1) have "gt64 need (Num 0)" by simp
  with False have "\<not> gt64 r (Num 0)"
    by (cases r; cases need) (auto simp: Math_min_def gt64_def split: if_splits)
  then show ?thesis by (simp add: t)
qed

lemma fifoTakes_exhausts:
  "i < j \<Longrightarrow> j < length ls \<Longrightarrow> gt64 (fifoTakes need ls ! j) (Num 0) \<Longrightarrow>
   \<not> gt64 (sub64 (remainingQuantity (ls ! i)) (fifoTakes need ls ! i)) (Num 0)"
proof (induction ls arbitrary: need i j)
  case Nil
  then show ?case by simp
next
  case (Cons l ls)
  from Cons.prems obtain k where j: "j = Suc k" by (cases j) simp_all
  define t where "t = (if gt64 (Math_min (remainingQuantity l) need) (Num 0)
                       then Math_min (remainingQuantity l) need else Num 0)"
  have later: "gt64 (fifoTakes (sub64 need t) ls ! k) (Num 0)" and k: "k < length ls"
    using Cons.prems j by (simp_all add: Let_def t_def)
  show ?case
  proof (cases i)
    case 0
    have "gt64 (sub64 need t) (Num 0)" using fifoTakes_positive_needs [OF k later] .
    then have "\<not> gt64 (sub64 (remainingQuantity l) t) (Num 0)"
      using t_def by (rule take_leaves_nothing)
    then show ?thesis using 0 by (simp add: Let_def t_def)
  next
    case (Suc m)
    then have "m < k" using Cons.prems j by simp
    from Cons.IH [OF this k later] show ?thesis
      using Suc by (simp add: Let_def t_def)
  qed
qed

lemma processSell_loop_fifo:
  "i \<le> length lots \<Longrightarrow>
   processSell_loop settle lots i need used tot =
     (take i lots @ map2 consumeLot (drop i lots) (fifoTakes need (drop i lots)),
      foldl sub64 need (fifoTakes need (drop i lots)),
      used @ map (\<lambda>(l, t). lotUsedEntry settle l t) (touched (drop i lots) (fifoTakes need (drop i lots))),
      foldl add64 tot (map (\<lambda>(l, t). mul64 t (price l)) (touched (drop i lots) (fifoTakes need (drop i lots)))))"
proof (induction settle lots i need used tot rule: processSell_loop.induct)
  case (1 settle lots i need used tot)
  show ?case
  proof (cases "i < length lots \<and> gt64 need (Num 0)")
    case False
    show ?thesis
    proof (cases "i < length lots")
      case True
      with False have "\<not> gt64 need (Num 0)" by simp
      then show ?thesis
        using False
        by (subst processSell_loop.simps)
           (simp add: fifoTakes_nonpos map2_consumeLot_zero touched_zero foldl_sub64_zero)
    next
      case False
      with "1.prems" show ?thesis
        by (subst processSell_loop.simps) (simp add: touched_def)
    qed
  next
    case True
    define l where "l = lots ! i"
    define t where "t = Math_min (remainingQuantity l) need"
    have dr: "drop i lots = l # drop (Suc i) lots"
      using True by (simp add: l_def Cons_nth_drop_Suc)
    show ?thesis
    proof (cases "gt64 t (Num 0)")
      case pos: True
      define lots' where
        "lots' = lots[i := l\<lparr>remainingQuantity := sub64 (remainingQuantity l) t\<rparr>]"
      have len: "Suc i \<le> length lots'" using True by (simp add: lots'_def)
      have d': "drop (Suc i) lots' = drop (Suc i) lots"
        by (simp add: lots'_def)
      have t': "take (Suc i) lots' = take i lots @ [consumeLot l t]"
        using True by (simp add: lots'_def take_Suc_conv_app_nth consumeLot_def)
      have step: "processSell_loop settle lots i need used tot =
          processSell_loop settle lots' (i + 1) (sub64 need t)
            (used @ [lotUsedEntry settle l t]) (add64 tot (mul64 t (price l)))"
        using True pos
        by (subst processSell_loop.simps)
           (simp add: Let_def l_def t_def lots'_def lotUsedEntry_def)
      have ih: "processSell_loop settle lots' (i + 1) (sub64 need t)
            (used @ [lotUsedEntry settle l t]) (add64 tot (mul64 t (price l))) =
         (take (i + 1) lots' @ map2 consumeLot (drop (i + 1) lots') (fifoTakes (sub64 need t) (drop (i + 1) lots')),
          foldl sub64 (sub64 need t) (fifoTakes (sub64 need t) (drop (i + 1) lots')),
          (used @ [lotUsedEntry settle l t]) @ map (\<lambda>(l, t). lotUsedEntry settle l t)
             (touched (drop (i + 1) lots') (fifoTakes (sub64 need t) (drop (i + 1) lots'))),
          foldl add64 (add64 tot (mul64 t (price l))) (map (\<lambda>(l, t). mul64 t (price l))
             (touched (drop (i + 1) lots') (fifoTakes (sub64 need t) (drop (i + 1) lots')))))"
        using "1.IH"(1)[OF True l_def t_def pos refl refl] len
        by (simp add: lots'_def lotUsedEntry_def)
      show ?thesis
        unfolding step ih
        using pos by (simp add: d' t' dr Let_def t_def touched_Cons)
    next
      case npos: False
      have step: "processSell_loop settle lots i need used tot =
          processSell_loop settle lots (i + 1) need used tot"
        using True npos
        by (subst processSell_loop.simps)
           (simp add: Let_def l_def t_def)
      have ih: "processSell_loop settle lots (i + 1) need used tot =
         (take (i + 1) lots @ map2 consumeLot (drop (i + 1) lots) (fifoTakes need (drop (i + 1) lots)),
          foldl sub64 need (fifoTakes need (drop (i + 1) lots)),
          used @ map (\<lambda>(l, t). lotUsedEntry settle l t)
             (touched (drop (i + 1) lots) (fifoTakes need (drop (i + 1) lots))),
          foldl add64 tot (map (\<lambda>(l, t). mul64 t (price l))
             (touched (drop (i + 1) lots) (fifoTakes need (drop (i + 1) lots)))))"
        using "1.IH"(2)[OF True l_def t_def npos] True by simp
      show ?thesis
        unfolding step ih
        using npos True
        by (simp add: dr Let_def t_def touched_Cons take_Suc_conv_app_nth l_def consumeLot_zero)
    qed
  qed
qed

lemma calculateSale_loop_fifo:
  "i \<le> length lots \<Longrightarrow>
   calculateSale_loop settle lots i need used tot =
     (foldl sub64 need (fifoTakes need (drop i lots)),
      used @ map (\<lambda>(l, t). lotUsedEntry settle l t) (touched (drop i lots) (fifoTakes need (drop i lots))),
      foldl add64 tot (map (\<lambda>(l, t). mul64 t (price l)) (touched (drop i lots) (fifoTakes need (drop i lots)))))"
proof (induction settle lots i need used tot rule: calculateSale_loop.induct)
  case (1 settle lots i need used tot)
  show ?case
  proof (cases "i < length lots \<and> gt64 need (Num 0)")
    case False
    show ?thesis
    proof (cases "i < length lots")
      case True
      with False have "\<not> gt64 need (Num 0)" by simp
      then show ?thesis
        using False
        by (subst calculateSale_loop.simps)
           (simp add: fifoTakes_nonpos touched_zero foldl_sub64_zero)
    next
      case False
      with "1.prems" show ?thesis
        by (subst calculateSale_loop.simps) (simp add: touched_def)
    qed
  next
    case True
    define l where "l = lots ! i"
    define t where "t = Math_min (remainingQuantity l) need"
    have dr: "drop i lots = l # drop (Suc i) lots"
      using True by (simp add: l_def Cons_nth_drop_Suc)
    show ?thesis
    proof (cases "gt64 t (Num 0)")
      case pos: True
      have step: "calculateSale_loop settle lots i need used tot =
          calculateSale_loop settle lots (i + 1) (sub64 need t)
            (used @ [lotUsedEntry settle l t]) (add64 tot (mul64 t (price l)))"
        using True pos
        by (subst calculateSale_loop.simps) (simp add: Let_def l_def t_def lotUsedEntry_def)
      have ih: "calculateSale_loop settle lots (i + 1) (sub64 need t)
            (used @ [lotUsedEntry settle l t]) (add64 tot (mul64 t (price l))) =
         (foldl sub64 (sub64 need t) (fifoTakes (sub64 need t) (drop (i + 1) lots)),
          (used @ [lotUsedEntry settle l t]) @ map (\<lambda>(l, t). lotUsedEntry settle l t)
             (touched (drop (i + 1) lots) (fifoTakes (sub64 need t) (drop (i + 1) lots))),
          foldl add64 (add64 tot (mul64 t (price l))) (map (\<lambda>(l, t). mul64 t (price l))
             (touched (drop (i + 1) lots) (fifoTakes (sub64 need t) (drop (i + 1) lots)))))"
        using "1.IH"(1)[OF True l_def t_def pos refl refl] True
        by (simp add: lotUsedEntry_def)
      show ?thesis
        unfolding step ih
        using pos by (simp add: dr Let_def t_def touched_Cons)
    next
      case npos: False
      have step: "calculateSale_loop settle lots i need used tot =
          calculateSale_loop settle lots (i + 1) need used tot"
        using True npos
        by (subst calculateSale_loop.simps) (simp add: Let_def l_def t_def)
      have ih: "calculateSale_loop settle lots (i + 1) need used tot =
         (foldl sub64 need (fifoTakes need (drop (i + 1) lots)),
          used @ map (\<lambda>(l, t). lotUsedEntry settle l t)
             (touched (drop (i + 1) lots) (fifoTakes need (drop (i + 1) lots))),
          foldl add64 tot (map (\<lambda>(l, t). mul64 t (price l))
             (touched (drop (i + 1) lots) (fifoTakes need (drop (i + 1) lots)))))"
        using "1.IH"(2)[OF True l_def t_def npos] True by simp
      show ?thesis
        unfolding step ih
        using npos True
        by (simp add: dr Let_def t_def touched_Cons)
    qed
  qed
qed

lemma processSell_success:
  assumes "holdings q (txn_symbol t) = Some lots" and "lots \<noteq> []"
      and "\<not> lt64 (available lots) (txn_quantity t)"
  shows "processSell q t =
     (Inr (fifoSale (txn_symbol t) (txn_quantity t) (txn_price t) (settlementDate t) lots),
      q\<lparr>holdings := (holdings q)(txn_symbol t \<mapsto> fifoKept (txn_quantity t) lots),
        realizedGains := realizedGains q @
          [fifoSale (txn_symbol t) (txn_quantity t) (txn_price t) (settlementDate t) lots]\<rparr>)"
  using assms
  by (simp add: processSell_def Let_def totalAvailable_eq processSell_loop_fifo
      fifoSale_def fifoKept_def sum64_def)

lemma processSell_failure:
  assumes "lt64 (available (queueOf q (txn_symbol t))) (txn_quantity t)
           \<or> queueOf q (txn_symbol t) = []"
  shows "processSell q t =
     (Inl (if queueOf q (txn_symbol t) = [] then CannotSellNoHoldings (txn_symbol t)
           else CannotSellOnlyAvailable (txn_quantity t) (txn_symbol t)
                  (available (queueOf q (txn_symbol t)))), q)"
  using assms
  by (auto simp: processSell_def Let_def totalAvailable_eq queueOf_def split: option.splits)

lemma calculateSale_success:
  assumes "holdings q (toUpperCase symbol) = Some lots" and "lots \<noteq> []"
      and "\<not> lt64 (available lots) qty"
  shows "calculateSale q symbol qty prc d =
     (Inr ((fifoSale (toUpperCase symbol) qty prc (calculateSettlementDate d) lots)
             \<lparr>isSimulation := True\<rparr>), q)"
  using assms
  by (simp add: calculateSale_def Let_def totalAvailable_eq calculateSale_loop_fifo
      fifoSale_def sum64_def)

lemma calculateSale_failure:
  assumes "lt64 (available (queueOf q (toUpperCase symbol))) qty
           \<or> queueOf q (toUpperCase symbol) = []"
  shows "calculateSale q symbol qty prc d =
     (Inl (if queueOf q (toUpperCase symbol) = [] then NoHoldingsFound (toUpperCase symbol)
           else InsufficientShares qty (available (queueOf q (toUpperCase symbol)))), q)"
  using assms
  by (auto simp: calculateSale_def Let_def totalAvailable_eq queueOf_def split: option.splits)

lemma addTransaction_SELL:
  "addTransaction now q ''SELL'' symbol qty prc d =
     (case processSell q
        \<lparr>txn_id = length (transactions q) + 1, txn_type = ''SELL'',
         txn_symbol = toUpperCase symbol, txn_quantity = qty, txn_price = prc,
         tradeDate = d, settlementDate = calculateSettlementDate d,
         totalValue = mul64 qty prc, timestamp = now\<rparr> of
        (Inl e, q') \<Rightarrow> (Inl e, q')
      | (Inr r, q') \<Rightarrow> (Inr (SaleRecord r), q'))"
  by (simp add: addTransaction_def Let_def toUpperCase_SELL)

lemma settlement_examples:
  "calculateSettlementDate 1735689600000 = 1735862400000"
  "calculateSettlementDate 1738368000000 = 1738627200000"
  "calculateSettlementDate 1740787200000 = 1741046400000"
  by (simp_all add: calculateSettlementDate_def calculateSettlementDate_loop.simps
      msPerDay_def getDay_def)


section \<open>Roundings of the examples\<close>

text \<open>
  The binary64 values of the decimal literals and of the intermediate results that the
  examples below go through, each evaluated from its exponent.
\<close>

lemma binary64_1_10: "binary64 (1 / 10) = Num (3602879701896397 / 36028797018963968)"
  using binary64_eval [of "- 4" "1 / 10"]
  by (simp add: roundHalfEven_def Let_def floor_divide_numeral_rat floor_divide_neg_numeral_rat)

lemma binary64_1_5: "binary64 (1 / 5) = Num (3602879701896397 / 18014398509481984)"
  using binary64_eval [of "- 3" "1 / 5"]
  by (simp add: roundHalfEven_def Let_def floor_divide_numeral_rat floor_divide_neg_numeral_rat)

lemma binary64_3_10: "binary64 (3 / 10) = Num (5404319552844595 / 18014398509481984)"
  using binary64_eval [of "- 2" "3 / 10"]
  by (simp add: roundHalfEven_def Let_def floor_divide_numeral_rat floor_divide_neg_numeral_rat)

lemma binary64_2_5: "binary64 (2 / 5) = Num (3602879701896397 / 9007199254740992)"
  using binary64_eval [of "- 2" "2 / 5"]
  by (simp add: roundHalfEven_def Let_def floor_divide_numeral_rat floor_divide_neg_numeral_rat)

lemma binary64_9_10: "binary64 (9 / 10) = Num (8106479329266893 / 9007199254740992)"
  using binary64_eval [of "- 1" "9 / 10"]
  by (simp add: roundHalfEven_def Let_def floor_divide_numeral_rat floor_divide_neg_numeral_rat)

lemma binary64_1_10_again: "binary64 (3602879701896397 / 36028797018963968) = Num (3602879701896397 / 36028797018963968)"
  using binary64_eval [of "- 4" "3602879701896397 / 36028797018963968"]
  by (simp add: roundHalfEven_def Let_def floor_divide_numeral_rat floor_divide_neg_numeral_rat)

lemma binary64_3_10_again: "binary64 (5404319552844595 / 18014398509481984) = Num (5404319552844595 / 18014398509481984)"
  using binary64_eval [of "- 2" "5404319552844595 / 18014398509481984"]
  by (simp add: roundHalfEven_def Let_def floor_divide_numeral_rat floor_divide_neg_numeral_rat)

lemma binary64_sum_3_10_2_5: "binary64 (12610078956637389 / 18014398509481984) = Num (3152519739159347 / 4503599627370496)"
  using binary64_eval [of "- 1" "12610078956637389 / 18014398509481984"]
  by (simp add: roundHalfEven_def Let_def floor_divide_numeral_rat floor_divide_neg_numeral_rat)

lemma binary64_sum_7_10_1_5: "binary64 (16212958658533785 / 18014398509481984) = Num (2026619832316723 / 2251799813685248)"
  using binary64_eval [of "- 1" "16212958658533785 / 18014398509481984"]
  by (simp add: roundHalfEven_def Let_def floor_divide_numeral_rat floor_divide_neg_numeral_rat)

lemma binary64_sum_1_10_1_5: "binary64 (10808639105689191 / 36028797018963968) = Num (1351079888211149 / 4503599627370496)"
  using binary64_eval [of "- 2" "10808639105689191 / 36028797018963968"]
  by (simp add: roundHalfEven_def Let_def floor_divide_numeral_rat floor_divide_neg_numeral_rat)

lemma binary64_diff_1: "binary64 (7205759403792795 / 36028797018963968) = Num (7205759403792795 / 36028797018963968)"
  using binary64_eval [of "- 3" "7205759403792795 / 36028797018963968"]
  by (simp add: roundHalfEven_def Let_def floor_divide_numeral_rat floor_divide_neg_numeral_rat)

lemma binary64_diff_2: "binary64 (1 / 36028797018963968) = Num (1 / 36028797018963968)"
  using binary64_eval [of "- 55" "1 / 36028797018963968"]
  by (simp add: roundHalfEven_def Let_def floor_divide_numeral_rat floor_divide_neg_numeral_rat)

lemma binary64_100_fifths: "binary64 (90071992547409925 / 4503599627370496) = Num (20)"
  using binary64_eval [of "4" "90071992547409925 / 4503599627370496"]
  by (simp add: roundHalfEven_def Let_def floor_divide_numeral_rat floor_divide_neg_numeral_rat)

lemma binary64_250_3: "binary64 (250 / 3) = Num (5864062014805333 / 70368744177664)"
  using binary64_eval [of "6" "250 / 3"]
  by (simp add: roundHalfEven_def Let_def floor_divide_numeral_rat floor_divide_neg_numeral_rat)

lemma binary64_29_100: "binary64 (29 / 100) = Num (5224175567749775 / 18014398509481984)"
  using binary64_eval [of "- 2" "29 / 100"]
  by (simp add: roundHalfEven_def Let_def floor_divide_numeral_rat floor_divide_neg_numeral_rat)

lemma binary64_100_times_29_100: "binary64 (130604389193744375 / 4503599627370496) = Num (8162774324609023 / 281474976710656)"
  using binary64_eval [of "4" "130604389193744375 / 4503599627370496"]
  by (simp add: roundHalfEven_def Let_def floor_divide_numeral_rat floor_divide_neg_numeral_rat)

lemma binary64_625_8: "binary64 (625 / 8) = Num (625 / 8)"
  using binary64_eval [of "6" "625 / 8"]
  by (simp add: roundHalfEven_def Let_def floor_divide_numeral_rat floor_divide_neg_numeral_rat)

lemma binary64_1_4: "binary64 (1 / 4) = Num (1 / 4)"
  using binary64_eval [of "- 2" "1 / 4"]
  by (simp add: roundHalfEven_def Let_def floor_divide_numeral_rat floor_divide_neg_numeral_rat)

lemma binary64_5_2: "binary64 (5 / 2) = Num (5 / 2)"
  using binary64_eval [of "1" "5 / 2"]
  by (simp add: roundHalfEven_def Let_def floor_divide_numeral_rat floor_divide_neg_numeral_rat)

lemma binary64_5_4: "binary64 (5 / 4) = Num (5 / 4)"
  using binary64_eval [of "0" "5 / 4"]
  by (simp add: roundHalfEven_def Let_def floor_divide_numeral_rat floor_divide_neg_numeral_rat)

lemma binary64_48_5: "binary64 (48 / 5) = Num (5404319552844595 / 562949953421312)"
  using binary64_eval [of "3" "48 / 5"]
  by (simp add: roundHalfEven_def Let_def floor_divide_numeral_rat floor_divide_neg_numeral_rat)

lemma binary64_12_times_250_3: "binary64 (17592186044415999 / 17592186044416) = Num (1000)"
  using binary64_eval [of "9" "17592186044415999 / 17592186044416"]
  by (simp add: roundHalfEven_def Let_def floor_divide_numeral_rat floor_divide_neg_numeral_rat)

lemma binary64_1000_9: "binary64 (1000 / 9) = Num (3909374676536889 / 35184372088832)"
  using binary64_eval [of "6" "1000 / 9"]
  by (simp add: roundHalfEven_def Let_def floor_divide_numeral_rat floor_divide_neg_numeral_rat)

lemma binary64_minus_1_5: "binary64 (- (1 / 5)) = Num (- (3602879701896397 / 18014398509481984))"
  using binary64_eval [of "- 3" "- (1 / 5)"]
  by (simp add: roundHalfEven_def Let_def floor_divide_numeral_rat floor_divide_neg_numeral_rat)

lemma binary64_minus_100_fifths: "binary64 (- (90071992547409925 / 4503599627370496)) = Num (- 20)"
  using binary64_eval [of "4" "- (90071992547409925 / 4503599627370496)"]
  by (simp add: roundHalfEven_def Let_def floor_divide_numeral_rat floor_divide_neg_numeral_rat)

lemma binary64_11_15: "binary64 (11 / 15) = Num (6605279453476727 / 9007199254740992)"
  using binary64_eval [of "- 1" "11 / 15"]
  by (simp add: roundHalfEven_def Let_def floor_divide_numeral_rat floor_divide_neg_numeral_rat)

lemma binary64_150_times_11_15: "binary64 (495395959010754525 / 4503599627370496) = Num (7740561859543039 / 70368744177664)"
  using binary64_eval [of "6" "495395959010754525 / 4503599627370496"]
  by (simp add: roundHalfEven_def Let_def floor_divide_numeral_rat floor_divide_neg_numeral_rat)

lemma binary64_3_20: "binary64 (3 / 20) = Num (5404319552844595 / 36028797018963968)"
  using binary64_eval [of "- 3" "3 / 20"]
  by (simp add: roundHalfEven_def Let_def floor_divide_numeral_rat floor_divide_neg_numeral_rat)

lemma binary64_50_times_3_20: "binary64 (135107988821114875 / 18014398509481984) = Num (15 / 2)"
  using binary64_eval [of "2" "135107988821114875 / 18014398509481984"]
  by (simp add: roundHalfEven_def Let_def floor_divide_numeral_rat floor_divide_neg_numeral_rat)

lemma binary64_15_2: "binary64 (15 / 2) = Num (15 / 2)"
  using binary64_eval [of "2" "15 / 2"]
  by (simp add: roundHalfEven_def Let_def floor_divide_numeral_rat floor_divide_neg_numeral_rat)

lemma binary64_1_8: "binary64 (1 / 8) = Num (1 / 8)"
  using binary64_eval [of "- 3" "1 / 8"]
  by (simp add: roundHalfEven_def Let_def floor_divide_numeral_rat floor_divide_neg_numeral_rat)

lemma binary64_3_40: "binary64 (3 / 40) = Num (5404319552844595 / 72057594037927936)"
  using binary64_eval [of "- 4" "3 / 40"]
  by (simp add: roundHalfEven_def Let_def floor_divide_numeral_rat floor_divide_neg_numeral_rat)

lemma binary64_diff_3: "binary64 (7205759403792793 / 36028797018963968) = Num (7205759403792793 / 36028797018963968)"
  using binary64_eval [of "- 3" "7205759403792793 / 36028797018963968"]
  by (simp add: roundHalfEven_def Let_def floor_divide_numeral_rat floor_divide_neg_numeral_rat)

lemma binary64_diff_4: "binary64 (1 / 36028797018963968) = Num (1 / 36028797018963968)"
  using binary64_eval [of "- 55" "1 / 36028797018963968"]
  by (simp add: roundHalfEven_def Let_def floor_divide_numeral_rat floor_divide_neg_numeral_rat)

lemma ogdcQueue_reached:
  "snd (addTransaction 0 (snd (addTransaction 0 constructor ''BUY'' ''ogdc'' (Num 100) (Num 100) 1735689600000))
          ''BUY'' ''OGDC'' (Num 50) (Num 120) 1738368000000) = ogdcQueue"
  by (simp add: addTransaction_def processBuy_def constructor_def toUpperCase_BUY
      toUpperCase_OGDC settlement_examples Let_def ogdcQueue_def ogdcLots_def buy1_def buy2_def
      numeral_2_eq_2 mul64_Num)

lemma available_ogdcLots: "available ogdcLots = Num 150"
  by (simp add: available_def sum64_def ogdcLots_def)

section \<open>Selling\<close>

text \<open>
  C1, as amended. A sell of quantity \<open>qty\<close> on a symbol whose queue \<open>lots\<close> is not
  empty and passes the availability check, that is, whose remaining quantities added up
  head first in binary64 are not below \<open>qty\<close>, succeeds, and with \<open>ts\<close> the amounts
  taken from the lots, head first: the amount taken from lot \<open>i\<close> is the smaller of its
  remaining quantity and the quantity still needed, which is \<open>qty\<close> less the amounts
  before it, subtracted one by one in binary64 (nothing where that is not above zero); a
  lot is touched only when every lot before it is left without shares; \<open>lotsUsed\<close> has
  one entry per touched lot, in queue order, with the lot's date and unit cost, the
  amount taken and the whole days from the lot's purchase date to the settlement date of
  the sale; \<open>totalCostBasis\<close> is the binary64 sum, in queue order, of the rounded
  products of amount and unit cost over the touched lots; and the queue afterwards is the
  lots less the amounts taken, without those whose remaining quantity is no longer above
  zero.
\<close>

theorem sell_consumes_fifo:
  assumes "holdings q (toUpperCase symbol) = Some lots" and "lots \<noteq> []"
      and "\<not> lt64 (available lots) qty"
  shows "\<exists>r q'. addTransaction now q ''SELL'' symbol qty prc d = (Inr (SaleRecord r), q') \<and>
     (let settle = calculateSettlementDate d;
          ts = fifoTakes qty lots;
          taken = filter (\<lambda>(l, t). gt64 t (Num 0)) (zip lots ts)
      in length ts = length lots \<and>
         (\<forall>i<length lots.
            ts ! i = (let stillNeeded = foldl sub64 qty (take i ts);
                          m = Math_min (remainingQuantity (lots ! i)) stillNeeded
                      in if gt64 m (Num 0) then m else Num 0)) \<and>
         (\<forall>i j. i < j \<and> j < length lots \<and> gt64 (ts ! j) (Num 0) \<longrightarrow>
                \<not> gt64 (sub64 (remainingQuantity (lots ! i)) (ts ! i)) (Num 0)) \<and>
         lotsUsed r =
           map (\<lambda>(l, t).
                 \<lparr>lu_purchaseDate = purchaseDate l, lu_quantity = t, costPerShare = price l,
                  costBasis = mul64 t (price l),
                  lu_holdingPeriod =
                    \<lparr>days = (settle - purchaseDate l) div msPerDay,
                     isLongTerm = (365 \<le> (settle - purchaseDate l) div msPerDay)\<rparr>\<rparr>) taken \<and>
         totalCostBasis r = sum64 (map (\<lambda>(l, t). mul64 t (price l)) taken) \<and>
         holdings q' (toUpperCase symbol) =
           Some (filter (\<lambda>l. gt64 (remainingQuantity l) (Num 0))
                  (map (\<lambda>(l, t). l\<lparr>remainingQuantity := sub64 (remainingQuantity l) t\<rparr>)
                     (zip lots ts))))"
proof -
  define t where "t = \<lparr>txn_id = length (transactions q) + 1, txn_type = ''SELL'',
         txn_symbol = toUpperCase symbol, txn_quantity = qty, txn_price = prc,
         tradeDate = d, settlementDate = calculateSettlementDate d,
         totalValue = mul64 qty prc, timestamp = now\<rparr>"
  define r where "r = fifoSale (toUpperCase symbol) qty prc (calculateSettlementDate d) lots"
  define q' where "q' = q\<lparr>holdings := (holdings q)(toUpperCase symbol \<mapsto> fifoKept qty lots),
        realizedGains := realizedGains q @ [r]\<rparr>"
  have "processSell q t = (Inr r, q')"
    using processSell_success [of q t lots] assms by (simp add: t_def r_def q'_def)
  then have run: "addTransaction now q ''SELL'' symbol qty prc d = (Inr (SaleRecord r), q')"
    by (simp add: addTransaction_SELL t_def)
  have c1: "length (fifoTakes qty lots) = length lots"
    by (rule length_fifoTakes)
  have c2: "\<forall>i<length lots.
      fifoTakes qty lots ! i =
        (let stillNeeded = foldl sub64 qty (take i (fifoTakes qty lots));
             m = Math_min (remainingQuantity (lots ! i)) stillNeeded
         in if gt64 m (Num 0) then m else Num 0)"
    using fifoTakes_nth [of _ lots qty] by (simp add: Let_def)
  have c3: "\<forall>i j. i < j \<and> j < length lots \<and> gt64 (fifoTakes qty lots ! j) (Num 0) \<longrightarrow>
      \<not> gt64 (sub64 (remainingQuantity (lots ! i)) (fifoTakes qty lots ! i)) (Num 0)"
    using fifoTakes_exhausts [of _ _ lots qty] by blast
  have c5: "lotsUsed r =
      map (\<lambda>(l, t).
            \<lparr>lu_purchaseDate = purchaseDate l, lu_quantity = t, costPerShare = price l,
             costBasis = mul64 t (price l),
             lu_holdingPeriod =
               \<lparr>days = (calculateSettlementDate d - purchaseDate l) div msPerDay,
                isLongTerm = (365 \<le> (calculateSettlementDate d - purchaseDate l) div msPerDay)\<rparr>\<rparr>)
          (filter (\<lambda>(l, t). gt64 t (Num 0)) (zip lots (fifoTakes qty lots)))"
    by (simp add: r_def fifoSale_def touched_def lotUsedEntry_def getHoldingPeriod_def Let_def)
  have c6: "totalCostBasis r =
      sum64 (map (\<lambda>(l, t). mul64 t (price l))
        (filter (\<lambda>(l, t). gt64 t (Num 0)) (zip lots (fifoTakes qty lots))))"
    by (simp add: r_def fifoSale_def touched_def Let_def)
  have c7: "holdings q' (toUpperCase symbol) =
      Some (filter (\<lambda>l. gt64 (remainingQuantity l) (Num 0))
             (map (\<lambda>(l, t). l\<lparr>remainingQuantity := sub64 (remainingQuantity l) t\<rparr>)
                (zip lots (fifoTakes qty lots))))"
    by (simp add: q'_def fifoKept_def consumeLot_def)
  show ?thesis
    unfolding Let_def
    using run c1 c2 [unfolded Let_def] c3 c5 c6 c7 by blast
qed

theorem sell_consumes_fifo_witness:
  "(\<exists>r q'. addTransaction 0 ogdcQueue ''SELL'' ''ogdc'' (Num 120) (Num 150) 1740787200000
             = (Inr (SaleRecord r), q') \<and>
     map lu_quantity (lotsUsed r) = [Num 100, Num 20] \<and>
     map costPerShare (lotsUsed r) = [Num 100, Num 120] \<and>
     map (\<lambda>u. days (lu_holdingPeriod u)) (lotsUsed r) = [60, 28] \<and>
     totalCostBasis r = Num 12400 \<and>
     map remainingQuantity (queueOf q' ''OGDC'') = [Num 30]) \<and>
   (\<exists>r q'. addTransaction 0 (hblQueue [binary64 (1 / 10), binary64 (2 / 10)]) ''SELL'' ''HBL''
             (binary64 (3 / 10)) (Num 150) 1740787200000 = (Inr (SaleRecord r), q') \<and>
     map lu_quantity (lotsUsed r) =
       [Num (3602879701896397 / 36028797018963968), Num (7205759403792793 / 36028797018963968)] \<and>
     map remainingQuantity (queueOf q' ''HBL'') = [Num (1 / 36028797018963968)])"
proof -
  have h1: "holdings ogdcQueue (toUpperCase ''ogdc'') = Some ogdcLots"
    by (simp add: ogdcQueue_def toUpperCase_OGDC)
  have h2: "ogdcLots \<noteq> []"
    by (simp add: ogdcLots_def)
  have h3: "\<not> lt64 (available ogdcLots) (Num 120)"
    by (simp add: available_ogdcLots)
  have ts: "fifoTakes (Num 120) ogdcLots = [Num 100, Num 20]"
    by (simp add: ogdcLots_def Let_def sub64_Num)
  from sell_consumes_fifo [OF h1 h2 h3, of 0 "Num 150" 1740787200000]
  have whole: "\<exists>r q'. addTransaction 0 ogdcQueue ''SELL'' ''ogdc'' (Num 120) (Num 150) 1740787200000
             = (Inr (SaleRecord r), q') \<and>
     map lu_quantity (lotsUsed r) = [Num 100, Num 20] \<and>
     map costPerShare (lotsUsed r) = [Num 100, Num 120] \<and>
     map (\<lambda>u. days (lu_holdingPeriod u)) (lotsUsed r) = [60, 28] \<and>
     totalCostBasis r = Num 12400 \<and>
     map remainingQuantity (queueOf q' ''OGDC'') = [Num 30]"
    by (simp add: ts settlement_examples toUpperCase_OGDC queueOf_def Let_def msPerDay_def)
      (auto simp: ogdcLots_def sum64_def mul64_Num sub64_Num)
  define lots where "lots = [hblLot (Num (3602879701896397 / 36028797018963968)),
       hblLot (Num (3602879701896397 / 18014398509481984))]"
  define qty where "qty = Num (5404319552844595 / 18014398509481984)"
  have q: "hblQueue [binary64 (1 / 10), binary64 (2 / 10)] =
      \<lparr>holdings = [''HBL'' \<mapsto> lots], transactions = [], realizedGains = []\<rparr>"
    using binary64_1_10 binary64_1_5 by (simp add: hblQueue_def lots_def)
  have qty: "binary64 (3 / 10) = qty" using binary64_3_10 by (simp add: qty_def)
  have k1: "holdings \<lparr>holdings = [''HBL'' \<mapsto> lots], transactions = [], realizedGains = []\<rparr>
      (toUpperCase ''HBL'') = Some lots"
    by (simp add: toUpperCase_HBL)
  have k2: "lots \<noteq> []" by (simp add: lots_def)
  have k3: "\<not> lt64 (available lots) qty"
    using binary64_1_10_again binary64_sum_1_10_1_5
    by (simp add: lots_def available_def sum64_def hblLot_def qty_def)
  have ts': "fifoTakes qty lots =
      [Num (3602879701896397 / 36028797018963968), Num (7205759403792793 / 36028797018963968)]"
    using binary64_diff_3
    by (simp add: lots_def hblLot_def qty_def Let_def sub64_Num)
  from sell_consumes_fifo [OF k1 k2 k3, of 0 "Num 150" 1740787200000] binary64_diff_4
  have fraction: "\<exists>r q'. addTransaction 0 (hblQueue [binary64 (1 / 10), binary64 (2 / 10)]) ''SELL'' ''HBL''
             (binary64 (3 / 10)) (Num 150) 1740787200000 = (Inr (SaleRecord r), q') \<and>
     map lu_quantity (lotsUsed r) =
       [Num (3602879701896397 / 36028797018963968), Num (7205759403792793 / 36028797018963968)] \<and>
     map remainingQuantity (queueOf q' ''HBL'') = [Num (1 / 36028797018963968)]"
    unfolding q qty
    by (simp add: ts' toUpperCase_HBL queueOf_def Let_def)
      (auto simp: lots_def hblLot_def sub64_Num)
  from whole fraction show ?thesis by (rule conjI)
qed

text \<open>
  C1 as stated fails for a symbol that holds at least the quantity sold: three lots of
  0.3, 0.4 and 0.2 shares hold exactly the binary64 value of 0.9 between them, but the
  source adds them up to 0.8999999999999999 and refuses to sell 0.9.
\<close>

theorem sell_refused_with_enough_shares:
  "addTransaction 0 (hblQueue [binary64 (3 / 10), binary64 (4 / 10), binary64 (2 / 10)])
     ''SELL'' ''HBL'' (binary64 (9 / 10)) (Num 150) 1740787200000 =
     (Inl (CannotSellOnlyAvailable (binary64 (9 / 10)) ''HBL''
             (Num (2026619832316723 / 2251799813685248))),
      hblQueue [binary64 (3 / 10), binary64 (4 / 10), binary64 (2 / 10)]) \<and>
   valueOf (binary64 (9 / 10)) \<le>
     sum_list (map (\<lambda>l. valueOf (remainingQuantity l))
       (queueOf (hblQueue [binary64 (3 / 10), binary64 (4 / 10), binary64 (2 / 10)]) ''HBL''))"
proof -
  define q where "q = hblQueue [binary64 (3 / 10), binary64 (4 / 10), binary64 (2 / 10)]"
  define t where "t = \<lparr>txn_id = length (transactions q) + 1, txn_type = ''SELL'',
         txn_symbol = toUpperCase ''HBL'', txn_quantity = binary64 (9 / 10),
         txn_price = Num 150, tradeDate = 1740787200000,
         settlementDate = calculateSettlementDate 1740787200000,
         totalValue = mul64 (binary64 (9 / 10)) (Num 150), timestamp = 0\<rparr>"
  have lots: "queueOf q ''HBL'' =
      [hblLot (Num (5404319552844595 / 18014398509481984)),
       hblLot (Num (3602879701896397 / 9007199254740992)),
       hblLot (Num (3602879701896397 / 18014398509481984))]"
    using binary64_3_10 binary64_2_5 binary64_1_5
    by (simp add: q_def hblQueue_def queueOf_def)
  have av: "available (queueOf q ''HBL'') = Num (2026619832316723 / 2251799813685248)"
    using binary64_3_10_again binary64_sum_3_10_2_5 binary64_sum_7_10_1_5
    by (simp add: lots available_def sum64_def hblLot_def)
  have less: "lt64 (available (queueOf q (txn_symbol t))) (txn_quantity t)"
    using binary64_9_10 by (simp add: t_def toUpperCase_HBL av)
  have ne: "queueOf q (txn_symbol t) \<noteq> []"
    by (simp add: t_def toUpperCase_HBL lots)
  have "processSell q t =
      (Inl (CannotSellOnlyAvailable (binary64 (9 / 10)) ''HBL''
             (Num (2026619832316723 / 2251799813685248))), q)"
    using processSell_failure [of q t] less ne
    by (simp add: t_def toUpperCase_HBL av)
  then have run: "addTransaction 0 q ''SELL'' ''HBL'' (binary64 (9 / 10)) (Num 150) 1740787200000 =
      (Inl (CannotSellOnlyAvailable (binary64 (9 / 10)) ''HBL''
             (Num (2026619832316723 / 2251799813685248))), q)"
    by (simp add: addTransaction_SELL t_def)
  have enough: "valueOf (binary64 (9 / 10)) \<le>
      sum_list (map (\<lambda>l. valueOf (remainingQuantity l)) (queueOf q ''HBL''))"
    using binary64_9_10 by (simp add: lots hblLot_def)
  show ?thesis
    using run enough by (simp only: q_def) 
qed

text \<open>
  C2, as amended. A sell, and likewise a simulated sale, of more than the availability
  that the source computes, the remaining quantities of the symbol's queue added up head
  first in binary64, fails, with the error "no holdings found" for an empty or missing
  queue and "only N available" (simulation: "insufficient shares") otherwise, and the
  queue object it leaves (holdings, transactions, realized gains) is the one it was
  given.
\<close>

theorem insufficient_holdings_unchanged:
  assumes "lt64 (available (queueOf q (toUpperCase symbol))) qty"
  shows "addTransaction now q ''SELL'' symbol qty prc d =
           (Inl (if queueOf q (toUpperCase symbol) = []
                 then CannotSellNoHoldings (toUpperCase symbol)
                 else CannotSellOnlyAvailable qty (toUpperCase symbol)
                        (available (queueOf q (toUpperCase symbol)))), q) \<and>
         calculateSale q symbol qty prc d =
           (Inl (if queueOf q (toUpperCase symbol) = []
                 then NoHoldingsFound (toUpperCase symbol)
                 else InsufficientShares qty
                        (available (queueOf q (toUpperCase symbol)))), q)"
proof -
  define t where "t = \<lparr>txn_id = length (transactions q) + 1, txn_type = ''SELL'',
         txn_symbol = toUpperCase symbol, txn_quantity = qty, txn_price = prc,
         tradeDate = d, settlementDate = calculateSettlementDate d,
         totalValue = mul64 qty prc, timestamp = now\<rparr>"
  have "processSell q t =
     (Inl (if queueOf q (toUpperCase symbol) = [] then CannotSellNoHoldings (toUpperCase symbol)
           else CannotSellOnlyAvailable qty (toUpperCase symbol)
                  (available (queueOf q (toUpperCase symbol)))), q)"
    using processSell_failure [of q t] assms by (simp add: t_def)
  then have "addTransaction now q ''SELL'' symbol qty prc d =
     (Inl (if queueOf q (toUpperCase symbol) = [] then CannotSellNoHoldings (toUpperCase symbol)
           else CannotSellOnlyAvailable qty (toUpperCase symbol)
                  (available (queueOf q (toUpperCase symbol)))), q)"
    by (simp add: addTransaction_SELL t_def)
  moreover have "calculateSale q symbol qty prc d =
     (Inl (if queueOf q (toUpperCase symbol) = [] then NoHoldingsFound (toUpperCase symbol)
           else InsufficientShares qty
                  (available (queueOf q (toUpperCase symbol)))), q)"
    using calculateSale_failure [of q symbol qty] assms by simp
  ultimately show ?thesis by simp
qed

theorem insufficient_holdings_unchanged_witness:
  "addTransaction 0 ogdcQueue ''SELL'' ''ogdc'' (Num 151) (Num 150) 1740787200000 =
     (Inl (CannotSellOnlyAvailable (Num 151) ''OGDC'' (Num 150)), ogdcQueue) \<and>
   calculateSale ogdcQueue ''ogdc'' (Num 151) (Num 150) 1740787200000 =
     (Inl (InsufficientShares (Num 151) (Num 150)), ogdcQueue) \<and>
   addTransaction 0 ogdcQueue ''SELL'' ''HBL'' (Num 1) (Num 150) 1740787200000 =
     (Inl (CannotSellNoHoldings ''HBL''), ogdcQueue)"
proof -
  have q1: "queueOf ogdcQueue ''OGDC'' = ogdcLots" and q2: "queueOf ogdcQueue ''HBL'' = []"
    by (simp_all add: queueOf_def ogdcQueue_def)
  have s: "ogdcLots \<noteq> []"
    by (simp add: ogdcLots_def)
  have h1: "lt64 (available (queueOf ogdcQueue (toUpperCase ''ogdc''))) (Num 151)"
    by (simp add: q1 available_ogdcLots toUpperCase_OGDC)
  have h2: "lt64 (available (queueOf ogdcQueue (toUpperCase ''HBL''))) (Num 1)"
    by (simp add: q2 toUpperCase_HBL available_def sum64_def)
  show ?thesis
    using insufficient_holdings_unchanged [OF h1, of 0 "Num 150" 1740787200000]
      insufficient_holdings_unchanged [OF h2, of 0 "Num 150" 1740787200000]
    by (simp add: q1 q2 s available_ogdcLots toUpperCase_OGDC toUpperCase_HBL cong: if_cong)
qed

text \<open>
  C2 as stated fails for a quantity above the sum of the remaining quantities: two lots of
  0.1 and 0.2 shares hold less than 0.30000000000000004 between them, which is what the
  source adds them up to, and a sell of 0.30000000000000004 shares is accepted, consumes
  both lots and is recorded as a sale of that quantity.
\<close>

theorem oversell_is_accepted:
  "map quantitySold (realizedGains (snd (addTransaction 0
       (hblQueue [binary64 (1 / 10), binary64 (2 / 10)]) ''SELL'' ''HBL''
       (Num (1351079888211149 / 4503599627370496)) (Num 150) 1740787200000))) =
     [Num (1351079888211149 / 4503599627370496)] \<and>
   queueOf (snd (addTransaction 0
       (hblQueue [binary64 (1 / 10), binary64 (2 / 10)]) ''SELL'' ''HBL''
       (Num (1351079888211149 / 4503599627370496)) (Num 150) 1740787200000)) ''HBL'' = [] \<and>
   sum_list (map (\<lambda>l. valueOf (remainingQuantity l))
       (queueOf (hblQueue [binary64 (1 / 10), binary64 (2 / 10)]) ''HBL''))
     < 1351079888211149 / 4503599627370496"
proof -
  define q where "q = hblQueue [binary64 (1 / 10), binary64 (2 / 10)]"
  define qty where "qty = Num (1351079888211149 / 4503599627370496)"
  define lots where "lots = [hblLot (Num (3602879701896397 / 36028797018963968)),
       hblLot (Num (3602879701896397 / 18014398509481984))]"
  define t where "t = \<lparr>txn_id = length (transactions q) + 1, txn_type = ''SELL'',
         txn_symbol = toUpperCase ''HBL'', txn_quantity = qty,
         txn_price = Num 150, tradeDate = 1740787200000,
         settlementDate = calculateSettlementDate 1740787200000,
         totalValue = mul64 qty (Num 150), timestamp = 0\<rparr>"
  have h: "holdings q ''HBL'' = Some lots"
    using binary64_1_10 binary64_1_5 by (simp add: q_def hblQueue_def lots_def)
  have av: "available lots = qty"
    using binary64_1_10_again binary64_sum_1_10_1_5
    by (simp add: lots_def available_def sum64_def hblLot_def qty_def)
  have ok: "\<not> lt64 (available lots) (txn_quantity t)"
    by (simp add: av t_def qty_def)
  have ts: "fifoTakes qty lots =
      [Num (3602879701896397 / 36028797018963968), Num (3602879701896397 / 18014398509481984)]"
    using binary64_diff_1 binary64_diff_2
    by (simp add: lots_def hblLot_def qty_def Let_def sub64_Num)
  have kept: "fifoKept qty lots = []"
    by (simp add: fifoKept_def ts) (simp add: lots_def hblLot_def consumeLot_def sub64_Num)
  have "processSell q t =
     (Inr (fifoSale ''HBL'' qty (Num 150) (calculateSettlementDate 1740787200000) lots),
      q\<lparr>holdings := (holdings q)(''HBL'' \<mapsto> fifoKept qty lots),
        realizedGains := realizedGains q @
          [fifoSale ''HBL'' qty (Num 150) (calculateSettlementDate 1740787200000) lots]\<rparr>)"
    using processSell_success [of q t lots] h ok
    by (simp add: t_def toUpperCase_HBL lots_def)
  then have run: "snd (addTransaction 0 q ''SELL'' ''HBL'' qty (Num 150) 1740787200000) =
      q\<lparr>holdings := (holdings q)(''HBL'' \<mapsto> []),
        realizedGains := realizedGains q @
          [fifoSale ''HBL'' qty (Num 150) (calculateSettlementDate 1740787200000) lots]\<rparr>"
    by (simp add: addTransaction_SELL t_def kept)
  have a: "map quantitySold (realizedGains
      (snd (addTransaction 0 q ''SELL'' ''HBL'' qty (Num 150) 1740787200000))) = [qty]"
    by (simp add: run fifoSale_def Let_def) (simp add: q_def hblQueue_def)
  have b: "queueOf (snd (addTransaction 0 q ''SELL'' ''HBL'' qty (Num 150) 1740787200000))
      ''HBL'' = []"
    by (simp add: run queueOf_def)
  have c: "sum_list (map (\<lambda>l. valueOf (remainingQuantity l)) (queueOf q ''HBL''))
      < 1351079888211149 / 4503599627370496"
    by (simp add: queueOf_def h) (simp add: lots_def hblLot_def)
  show ?thesis
    using a b c by (simp only: q_def qty_def)
qed

text \<open>
  C8. \<open>calculateSale\<close> leaves the queue object (holdings, transactions, realized gains)
  as it was, and it returns, marked as a simulation, the sale record that the sell of the
  same arguments returns; where it fails the sell fails too and changes nothing.
\<close>

theorem calculateSale_leaves_ledger:
  "snd (calculateSale q symbol qty prc d) = q \<and>
   (case fst (calculateSale q symbol qty prc d) of
      Inr r \<Rightarrow> isSimulation r \<and>
        fst (addTransaction now q ''SELL'' symbol qty prc d) =
          Inr (SaleRecord (r\<lparr>isSimulation := False\<rparr>))
    | Inl e \<Rightarrow> (\<exists>e'. addTransaction now q ''SELL'' symbol qty prc d = (Inl e', q)))"
proof (cases "lt64 (available (queueOf q (toUpperCase symbol))) qty
              \<or> queueOf q (toUpperCase symbol) = []")
  case True
  define t where "t = \<lparr>txn_id = length (transactions q) + 1, txn_type = ''SELL'',
         txn_symbol = toUpperCase symbol, txn_quantity = qty, txn_price = prc,
         tradeDate = d, settlementDate = calculateSettlementDate d,
         totalValue = mul64 qty prc, timestamp = now\<rparr>"
  have "\<exists>e'. processSell q t = (Inl e', q)"
    using processSell_failure [of q t] True by (simp add: t_def)
  then have "\<exists>e'. addTransaction now q ''SELL'' symbol qty prc d = (Inl e', q)"
    by (auto simp: addTransaction_SELL t_def)
  then show ?thesis
    using calculateSale_failure [OF True, of prc d] by simp
next
  case False
  then obtain lots where h: "holdings q (toUpperCase symbol) = Some lots" "lots \<noteq> []"
      "\<not> lt64 (available lots) qty"
    by (auto simp: queueOf_def split: option.splits)
  define t where "t = \<lparr>txn_id = length (transactions q) + 1, txn_type = ''SELL'',
         txn_symbol = toUpperCase symbol, txn_quantity = qty, txn_price = prc,
         tradeDate = d, settlementDate = calculateSettlementDate d,
         totalValue = mul64 qty prc, timestamp = now\<rparr>"
  have "processSell q t =
     (Inr (fifoSale (toUpperCase symbol) qty prc (calculateSettlementDate d) lots),
      q\<lparr>holdings := (holdings q)(toUpperCase symbol \<mapsto> fifoKept qty lots),
        realizedGains := realizedGains q @
          [fifoSale (toUpperCase symbol) qty prc (calculateSettlementDate d) lots]\<rparr>)"
    using processSell_success [of q t lots] h by (simp add: t_def)
  then have "fst (addTransaction now q ''SELL'' symbol qty prc d) =
      Inr (SaleRecord (fifoSale (toUpperCase symbol) qty prc (calculateSettlementDate d) lots))"
    by (simp add: addTransaction_SELL t_def)
  then show ?thesis
    using calculateSale_success [OF h, of prc d] by (simp add: fifoSale_def Let_def)
qed

theorem calculateSale_leaves_ledger_witness:
  "calculateSale ogdcQueue ''ogdc'' (Num 120) (Num 150) 1740787200000 =
     (Inr ((fifoSale ''OGDC'' (Num 120) (Num 150) 1741046400000 ogdcLots)\<lparr>isSimulation := True\<rparr>),
      ogdcQueue) \<and>
   fst (addTransaction 0 ogdcQueue ''SELL'' ''ogdc'' (Num 120) (Num 150) 1740787200000) =
     Inr (SaleRecord (fifoSale ''OGDC'' (Num 120) (Num 150) 1741046400000 ogdcLots))"
proof -
  have h: "holdings ogdcQueue (toUpperCase ''ogdc'') = Some ogdcLots" "ogdcLots \<noteq> []"
      "\<not> lt64 (available ogdcLots) (Num 120)"
    by (simp_all add: ogdcQueue_def toUpperCase_OGDC available_ogdcLots) (simp add: ogdcLots_def)
  have c: "calculateSale ogdcQueue ''ogdc'' (Num 120) (Num 150) 1740787200000 =
     (Inr ((fifoSale ''OGDC'' (Num 120) (Num 150) 1741046400000 ogdcLots)\<lparr>isSimulation := True\<rparr>),
      ogdcQueue)"
    using calculateSale_success [OF h, of "Num 150" 1740787200000]
    by (simp add: toUpperCase_OGDC settlement_examples)
  show ?thesis
    using calculateSale_leaves_ledger [of ogdcQueue "''ogdc''" "Num 120" "Num 150" 1740787200000 0]
    by (simp add: c fifoSale_def Let_def)
qed


section \<open>The tax rate engine\<close>

text \<open>
  C3. A lot acquired on or after the cutover of 2024-07-01 is taxed at the flat rate of
  15 percent whatever its holding days and the filer status; a lot acquired before it is
  taxed by the legacy table of the filer status, whose buckets are the half-open intervals
  below 365, [365, 730), [730, 1095), [1095, 1460) and, unbounded above, from 1460 days.
  The rates are the binary64 values of the decimal literals of the source.
\<close>

theorem getTaxRate_regimes:
  "(newRegimeCutoff \<le> acquired \<longrightarrow>
      getTaxRate isFiler acquired holdingDays = binary64 (15 / 100)) \<and>
   (acquired < newRegimeCutoff \<longrightarrow>
      (let rates = (if isFiler then legacyRates_filer else legacyRates_nonFiler) in
       (holdingDays < 365 \<longrightarrow> getTaxRate isFiler acquired holdingDays = lessThan1Year rates) \<and>
       (365 \<le> holdingDays \<and> holdingDays < 730 \<longrightarrow>
          getTaxRate isFiler acquired holdingDays = oneToTwoYears rates) \<and>
       (730 \<le> holdingDays \<and> holdingDays < 1095 \<longrightarrow>
          getTaxRate isFiler acquired holdingDays = twoToThreeYears rates) \<and>
       (1095 \<le> holdingDays \<and> holdingDays < 1460 \<longrightarrow>
          getTaxRate isFiler acquired holdingDays = threeToFourYears rates) \<and>
       (1460 \<le> holdingDays \<longrightarrow> getTaxRate isFiler acquired holdingDays = fourPlusYears rates)))"
  by (simp add: getTaxRate_def taxRates_filer_default_def taxRates_nonFiler_default_def Let_def)

theorem getTaxRate_regimes_witness:
  "getTaxRate False 1735689600000 2000 = binary64 (15 / 100) \<and>
   getTaxRate True 1672617600000 364 = binary64 (15 / 100) \<and>
   getTaxRate True 1672617600000 365 = binary64 (125 / 1000) \<and>
   getTaxRate True 1672617600000 730 = binary64 (10 / 100) \<and>
   getTaxRate True 1672617600000 1095 = binary64 (75 / 1000) \<and>
   getTaxRate True 1672617600000 1460 = Num 0"
  using getTaxRate_regimes [where acquired = 1735689600000 and isFiler = False and holdingDays = 2000]
    getTaxRate_regimes [where acquired = 1672617600000 and isFiler = True and holdingDays = 364]
    getTaxRate_regimes [where acquired = 1672617600000 and isFiler = True and holdingDays = 365]
    getTaxRate_regimes [where acquired = 1672617600000 and isFiler = True and holdingDays = 730]
    getTaxRate_regimes [where acquired = 1672617600000 and isFiler = True and holdingDays = 1095]
    getTaxRate_regimes [where acquired = 1672617600000 and isFiler = True and holdingDays = 1460]
  by (simp add: newRegimeCutoff_def legacyRates_filer_def)

lemma calculateTaxForSale_loop_eq:
  "calculateTaxForSale_loop isFiler sp ls byLot tot =
     (byLot @ map (\<lambda>l. \<lparr>lt_purchaseDate = lu_purchaseDate l, lt_quantity = lu_quantity l,
                        lt_costPerShare = costPerShare l, lt_sellPrice = sp,
                        gain = mul64 (sub64 sp (costPerShare l)) (lu_quantity l),
                        lt_taxableGain =
                          Math_max (Num 0) (mul64 (sub64 sp (costPerShare l)) (lu_quantity l)),
                        taxRate = getTaxRate isFiler (lu_purchaseDate l) (days (lu_holdingPeriod l)),
                        tax = mul64 (Math_max (Num 0) (mul64 (sub64 sp (costPerShare l)) (lu_quantity l)))
                                (getTaxRate isFiler (lu_purchaseDate l) (days (lu_holdingPeriod l))),
                        lt_holdingPeriod = lu_holdingPeriod l\<rparr>) ls,
      foldl add64 tot
        (map (\<lambda>l. mul64 (Math_max (Num 0) (mul64 (sub64 sp (costPerShare l)) (lu_quantity l)))
                    (getTaxRate isFiler (lu_purchaseDate l) (days (lu_holdingPeriod l)))) ls))"
proof (induction ls arbitrary: byLot tot)
  case Nil
  show ?case by simp
next
  case (Cons l ls)
  show ?case
    by (simp only: calculateTaxForSale_loop.simps Let_def Cons.IH list.map foldl_Cons
        append_assoc append_Cons append_Nil)
qed

lemma finite_rate:
  assumes "binary64 x = Num y" and "0 \<le> x"
  shows "\<exists>r. 0 \<le> r \<and> binary64 x = Num r"
  using binary64_nonneg [OF assms(2)] assms(1) by auto

lemma getTaxRate_finite: "\<exists>r. 0 \<le> r \<and> getTaxRate isFiler acquired holdingDays = Num r"
proof -
  have a: "\<exists>r. 0 \<le> r \<and> binary64 (3 / 20) = Num r"
    by (rule finite_rate [OF binary64_3_20]) simp
  have b: "\<exists>r. 0 \<le> r \<and> binary64 (1 / 8) = Num r"
    by (rule finite_rate [OF binary64_1_8]) simp
  have c: "\<exists>r. 0 \<le> r \<and> binary64 (1 / 10) = Num r"
    by (rule finite_rate [OF binary64_1_10]) simp
  have d: "\<exists>r. 0 \<le> r \<and> binary64 (3 / 40) = Num r"
    by (rule finite_rate [OF binary64_3_40]) simp
  show ?thesis
    using a b c d
    by (simp add: getTaxRate_def taxRates_filer_default_def taxRates_nonFiler_default_def
        legacyRates_filer_def legacyRates_nonFiler_def Let_def)
qed

lemma not_negative_add64:
  assumes "isNaN a \<or> le64 (Num 0) a" and "isNaN b \<or> le64 (Num 0) b"
  shows "isNaN (add64 a b) \<or> le64 (Num 0) (add64 a b)"
proof (cases a)
  case (Num x)
  note a = this
  show ?thesis
  proof (cases b)
    case (Num y)
    with a assms have "0 \<le> x + y" by simp
    from binary64_nonneg [OF this] show ?thesis
      using a Num by (auto simp: le64_def)
  qed (use a assms in \<open>simp_all add: le64_def\<close>)
next
  case NegZero
  then show ?thesis using assms by (cases b) (simp_all add: le64_def)
next
  case PosInfinity
  then show ?thesis using assms by (cases b) (simp_all add: le64_def)
next
  case NegInfinity
  then show ?thesis using assms by (simp add: le64_def)
next
  case NaN
  then show ?thesis by simp
qed

lemma not_negative_foldl_add64:
  "isNaN a \<or> le64 (Num 0) a \<Longrightarrow> \<forall>x\<in>set xs. isNaN x \<or> le64 (Num 0) x \<Longrightarrow>
   isNaN (foldl add64 a xs) \<or> le64 (Num 0) (foldl add64 a xs)"
proof (induction xs arbitrary: a)
  case Nil
  then show ?case by simp
next
  case (Cons x xs)
  have "isNaN (add64 a x) \<or> le64 (Num 0) (add64 a x)"
    using Cons.prems by (intro not_negative_add64) simp_all
  then show ?case using Cons.IH [of "add64 a x"] Cons.prems(2) by simp
qed

lemma not_negative_Math_max:
  "isNaN (Math_max (Num 0) g) \<or> le64 (Num 0) (Math_max (Num 0) g)"
  by (cases g) (simp_all add: Math_max_def le64_def)

lemma not_negative_mul64:
  assumes "isNaN a \<or> le64 (Num 0) a" and "0 \<le> r"
  shows "isNaN (mul64 a (Num r)) \<or> le64 (Num 0) (mul64 a (Num r))"
proof (cases a)
  case (Num x)
  with assms have "0 \<le> x * r" by simp
  from binary64_nonneg [OF this] show ?thesis
    using Num assms by (auto simp: mul64_Num signedZero_def le64_def)
next
  case NegZero
  then show ?thesis by (simp add: mul64_def signedZero_def le64_def)
next
  case PosInfinity
  then show ?thesis using assms(2) by (simp add: mul64_def signedInfinity_def le64_def)
next
  case NegInfinity
  then show ?thesis using assms by (simp add: le64_def)
next
  case NaN
  then show ?thesis by (simp add: mul64_def)
qed

lemma not_negative_not_less: "isNaN a \<or> le64 (Num 0) a \<Longrightarrow> \<not> lt64 a (Num 0)"
  by (cases a) (auto simp: le64_def)

lemma Math_max_of_loss: "le64 g (Num 0) \<Longrightarrow> Math_max (Num 0) g = Num 0"
  by (cases g) (auto simp: Math_max_def le64_def)

lemma foldl_add64_zeros: "foldl add64 (Num 0) (map (\<lambda>_. Num 0) ls) = Num 0"
  by (induction ls) simp_all

text \<open>
  C4, as amended. \<open>calculateTaxForSale\<close> taxes each consumed lot
  \<open>max 0 ((sellPrice - costPerShare) * quantity)\<close> times the rate of the lot, in
  binary64, and \<open>totalTax\<close> is the sum of these lot taxes, added up from zero in the
  order of the lots; no lot tax is negative (it is zero or more, or \<open>NaN\<close>), so
  \<open>totalTax\<close> is never negative, and it is zero when no consumed lot shows a gain.
\<close>

theorem calculateTaxForSale_per_lot:
  "map tax (taxByLot (calculateTaxForSale isFiler sale)) =
     map (\<lambda>l. mul64 (Math_max (Num 0)
                        (mul64 (sub64 (sellPrice sale) (costPerShare l)) (lu_quantity l)))
                (getTaxRate isFiler (lu_purchaseDate l) (days (lu_holdingPeriod l))))
       (lotsUsed sale) \<and>
   totalTax (calculateTaxForSale isFiler sale) =
     sum64 (map tax (taxByLot (calculateTaxForSale isFiler sale))) \<and>
   (\<forall>x\<in>set (map tax (taxByLot (calculateTaxForSale isFiler sale))).
      (isNaN x \<or> le64 (Num 0) x) \<and> \<not> lt64 x (Num 0)) \<and>
   (isNaN (totalTax (calculateTaxForSale isFiler sale))
      \<or> le64 (Num 0) (totalTax (calculateTaxForSale isFiler sale))) \<and>
   \<not> lt64 (totalTax (calculateTaxForSale isFiler sale)) (Num 0) \<and>
   ((\<forall>l\<in>set (lotsUsed sale).
        le64 (mul64 (sub64 (sellPrice sale) (costPerShare l)) (lu_quantity l)) (Num 0)) \<longrightarrow>
      totalTax (calculateTaxForSale isFiler sale) = Num 0)"
proof -
  let ?g = "\<lambda>l. mul64 (sub64 (sellPrice sale) (costPerShare l)) (lu_quantity l)"
  let ?f = "\<lambda>l. mul64 (Math_max (Num 0) (?g l))
                (getTaxRate isFiler (lu_purchaseDate l) (days (lu_holdingPeriod l)))"
  have byLot: "map tax (taxByLot (calculateTaxForSale isFiler sale)) = map ?f (lotsUsed sale)"
    by (simp add: calculateTaxForSale_def calculateTaxForSale_loop_eq comp_def)
  have tot: "totalTax (calculateTaxForSale isFiler sale) = sum64 (map ?f (lotsUsed sale))"
    by (simp add: calculateTaxForSale_def calculateTaxForSale_loop_eq sum64_def)
  have each: "isNaN (?f l) \<or> le64 (Num 0) (?f l)" for l
  proof -
    obtain r where r: "0 \<le> r"
        "getTaxRate isFiler (lu_purchaseDate l) (days (lu_holdingPeriod l)) = Num r"
      using getTaxRate_finite by blast
    show ?thesis
      unfolding r(2) by (rule not_negative_mul64 [OF not_negative_Math_max r(1)])
  qed
  have nn: "\<forall>x\<in>set (map ?f (lotsUsed sale)). isNaN x \<or> le64 (Num 0) x"
    using each by auto
  have nn': "\<forall>x\<in>set (map ?f (lotsUsed sale)). (isNaN x \<or> le64 (Num 0) x) \<and> \<not> lt64 x (Num 0)"
    using nn not_negative_not_less by blast
  have pos: "isNaN (sum64 (map ?f (lotsUsed sale))) \<or> le64 (Num 0) (sum64 (map ?f (lotsUsed sale)))"
    unfolding sum64_def by (rule not_negative_foldl_add64 [OF _ nn]) simp
  have pos': "\<not> lt64 (sum64 (map ?f (lotsUsed sale))) (Num 0)"
    using pos by (rule not_negative_not_less)
  have zero: "sum64 (map ?f (lotsUsed sale)) = Num 0"
    if loss: "\<forall>l\<in>set (lotsUsed sale). le64 (?g l) (Num 0)"
  proof -
    have "?f l = Num 0" if "l \<in> set (lotsUsed sale)" for l
    proof -
      obtain r where r: "0 \<le> r"
          "getTaxRate isFiler (lu_purchaseDate l) (days (lu_holdingPeriod l)) = Num r"
        using getTaxRate_finite by blast
      from loss that have "Math_max (Num 0) (?g l) = Num 0"
        by (intro Math_max_of_loss) blast
      then show ?thesis using r by (simp add: mul64_Num signedZero_def)
    qed
    then have "map ?f (lotsUsed sale) = map (\<lambda>_. Num 0) (lotsUsed sale)"
      by (intro map_cong) simp_all
    then show ?thesis by (simp only: sum64_def foldl_add64_zeros)
  qed
  show ?thesis
    unfolding byLot tot using nn' pos pos' zero by blast
qed

theorem calculateTaxForSale_per_lot_witness:
  "totalTax (calculateTaxForSale True (lossSale\<lparr>sellPrice := Num 40\<rparr>)) = Num 0 \<and>
   map tax (taxByLot (calculateTaxForSale True lossSale)) = [Num (15 / 2), Num 0] \<and>
   \<not> lt64 (totalTax (calculateTaxForSale True lossSale)) (Num 0)"
proof -
  have h: "\<forall>l\<in>set (lotsUsed (lossSale\<lparr>sellPrice := Num 40\<rparr>)).
      le64 (mul64 (sub64 (sellPrice (lossSale\<lparr>sellPrice := Num 40\<rparr>)) (costPerShare l))
              (lu_quantity l)) (Num 0)"
    by (simp add: lossSale_def sub64_Num mul64_Num)
  have "totalTax (calculateTaxForSale True (lossSale\<lparr>sellPrice := Num 40\<rparr>)) = Num 0"
    using calculateTaxForSale_per_lot [of True "lossSale\<lparr>sellPrice := Num 40\<rparr>"] h by blast
  moreover have "map tax (taxByLot (calculateTaxForSale True lossSale)) = [Num (15 / 2), Num 0]"
    using calculateTaxForSale_per_lot [of True lossSale] binary64_3_20 binary64_50_times_3_20
    by (simp add: lossSale_def getTaxRate_def newRegimeCutoff_def taxRates_filer_default_def
        sub64_Num mul64_Num signedZero_def)
  moreover have "\<not> lt64 (totalTax (calculateTaxForSale True lossSale)) (Num 0)"
    using calculateTaxForSale_per_lot [of True lossSale] by blast
  ultimately show ?thesis by blast
qed

text \<open>
  C4 as stated fails where it says that a sale with a net capital loss reports zero tax:
  the sale of eleven MEBL at 100, one bought at 50 and ten at 200, has the capital gain
  -950 and the tax 7.5, the 15 percent of the gain of 50 on the first lot.
\<close>

theorem net_loss_sale_is_taxed:
  "fst (addTransaction 0 meblQueue ''SELL'' ''MEBL'' (Num 11) (Num 100) 1740787200000) =
     Inr (SaleRecord lossSale) \<and>
   capitalGain lossSale = Num (- 950) \<and>
   totalTax (calculateTaxForSale True lossSale) = Num (15 / 2)"
proof -
  define t where "t = \<lparr>txn_id = length (transactions meblQueue) + 1, txn_type = ''SELL'',
         txn_symbol = toUpperCase ''MEBL'', txn_quantity = Num 11, txn_price = Num 100,
         tradeDate = 1740787200000, settlementDate = calculateSettlementDate 1740787200000,
         totalValue = mul64 (Num 11) (Num 100), timestamp = 0\<rparr>"
  have h: "holdings meblQueue (txn_symbol t) = Some meblLots" "meblLots \<noteq> []"
      "\<not> lt64 (available meblLots) (txn_quantity t)"
    by (simp_all add: meblQueue_def toUpperCase_MEBL meblLots_def t_def available_def sum64_def)
  have "fifoSale ''MEBL'' (Num 11) (Num 100) 1741046400000 meblLots = lossSale"
    by (simp add: fifoSale_def touched_def lotUsedEntry_def getHoldingPeriod_def msPerDay_def
        meblLots_def lossSale_def Let_def sum64_def sub64_Num mul64_Num)
  then have "fst (processSell meblQueue t) = Inr lossSale"
    using processSell_success [OF h] by (simp add: t_def toUpperCase_MEBL settlement_examples)
  then have "fst (addTransaction 0 meblQueue ''SELL'' ''MEBL'' (Num 11) (Num 100) 1740787200000) =
      Inr (SaleRecord lossSale)"
    by (cases "processSell meblQueue t") (simp add: addTransaction_SELL t_def)
  moreover have "totalTax (calculateTaxForSale True lossSale) = Num (15 / 2)"
    using binary64_3_20 binary64_50_times_3_20 binary64_15_2
    by (simp add: calculateTaxForSale_def lossSale_def Let_def getTaxRate_def
        newRegimeCutoff_def taxRates_filer_default_def sub64_Num mul64_Num signedZero_def)
  ultimately show ?thesis by (simp add: lossSale_def)
qed


section \<open>Corporate actions\<close>

lemma not_le64_iff: "\<not> isNaN a \<Longrightarrow> \<not> isNaN b \<Longrightarrow> (\<not> le64 a b) = gt64 a b"
  by (cases a; cases b) (auto simp: le64_def gt64_def)

lemma not_gt64_iff: "\<not> isNaN a \<Longrightarrow> \<not> isNaN b \<Longrightarrow> (\<not> gt64 a b) = le64 a b"
  by (cases a; cases b) (auto simp: le64_def gt64_def)

lemma not_gt64_zero: "(\<not> gt64 a (Num 0)) = (isNaN a \<or> le64 a (Num 0))"
  by (cases a) (auto simp: le64_def gt64_def)

lemma eq64_refl: "eq64 a a = (\<not> isNaN a)"
  by (cases a) simp_all

lemma applyBonusShares_Inr:
  assumes "applyBonusShares q symbol d = (Inr res, q')" and "holdings q symbol = Some lots"
  shows "gt64 (parseBonusRatio (ratio d)) (Num 0) \<and> le64 (parseBonusRatio (ratio d)) (Num 1) \<and>
         q' = q\<lparr>holdings := (holdings q)(symbol \<mapsto>
                  map (adjustLot (parseBonusRatio (ratio d)) (exDate d)) lots)\<rparr>"
proof -
  define r where "r = parseBonusRatio (ratio d)"
  have valid: "\<not> (isNaN r \<or> le64 r (Num 0) \<or> gt64 r (Num 1))"
    using assms(1) by (auto simp: applyBonusShares_def Let_def r_def split: if_splits)
  then have "gt64 r (Num 0)" "le64 r (Num 1)"
    using not_le64_iff [of r "Num 0"] not_gt64_iff [of r "Num 1"] by simp_all
  moreover have "q' = q\<lparr>holdings := (holdings q)(symbol \<mapsto> map (adjustLot r (exDate d)) lots)\<rparr>"
    using assms valid
    by (auto simp: applyBonusShares_def Let_def r_def split: if_splits prod.splits)
  ultimately show ?thesis by (simp add: r_def)
qed

lemma hblQueue_bonus20:
  "applyBonusShares (hblQueue [Num 100]) ''HBL'' (bonusDetails (PercentString (Num 20))) =
     (Inr \<lparr>br_symbol = ''HBL'', oldShares = Num 100, bonusShares = Num 20,
           newTotalShares = Num 120, oldAvgCost = Num 100,
           newAvgCost = Num (5864062014805333 / 70368744177664), br_costBasis = Num 10000,
           bonusRatio = Num (3602879701896397 / 18014398509481984)\<rparr>,
      \<lparr>holdings = [''HBL'' \<mapsto>
         [(hblLot (Num 100))\<lparr>remainingQuantity := Num 120,
                              price := Num (5864062014805333 / 70368744177664)\<rparr>]],
       transactions = [], realizedGains = []\<rparr>)"
  using binary64_1_5 binary64_100_fifths binary64_250_3
  by (simp add: applyBonusShares_def hblQueue_def hblLot_def bonusDetails_def
      parseBonusRatio_def adjustLot_def Let_def mul64_Num div64_Num)

text \<open>
  C5, as amended. A bonus that succeeds has a ratio \<open>r\<close> with \<open>0 < r \<le> 1\<close>, and for
  every lot bought before the ex-date it adds \<open>floor (remainingQuantity * r)\<close> to
  \<open>remainingQuantity\<close>, leaves \<open>quantity\<close> as it was and sets \<open>price\<close> to the old
  remaining quantity times the old price, divided by the new remaining quantity, each
  operation rounded to binary64; the other lots are untouched. The product of remaining
  quantity and price is so kept up to the two roundings: where the old and the new
  remaining quantity, the old and the new price and the rounded product are finite, and
  the exact product and the quotient are not below \<open>2 powi - 1022\<close> in magnitude, the
  new remaining quantity times the new price differs from the old remaining quantity
  times the old price by at most \<open>2 powi - 52 + 2 powi - 106\<close> times the latter.
\<close>

theorem applyBonusShares_rescales:
  assumes "applyBonusShares q symbol d = (Inr res, q')"
      and "holdings q symbol = Some lots"
  shows "\<exists>r lots'. r = parseBonusRatio (ratio d) \<and> gt64 r (Num 0) \<and> le64 r (Num 1) \<and>
      holdings q' symbol = Some lots' \<and> length lots' = length lots \<and>
      (\<forall>i<length lots.
         (purchaseDate (lots ! i) < exDate d \<longrightarrow>
            remainingQuantity (lots' ! i) =
              add64 (remainingQuantity (lots ! i))
                (Math_floor (mul64 (remainingQuantity (lots ! i)) r)) \<and>
            quantity (lots' ! i) = quantity (lots ! i) \<and>
            price (lots' ! i) =
              div64 (mul64 (remainingQuantity (lots ! i)) (price (lots ! i)))
                (remainingQuantity (lots' ! i)) \<and>
            purchaseDate (lots' ! i) = purchaseDate (lots ! i) \<and>
            originalTransaction (lots' ! i) = originalTransaction (lots ! i)) \<and>
         (\<not> purchaseDate (lots ! i) < exDate d \<longrightarrow> lots' ! i = lots ! i)) \<and>
      (\<forall>i<length lots. \<forall>a p m n p'.
         purchaseDate (lots ! i) < exDate d \<and>
         remainingQuantity (lots ! i) = Num a \<and> price (lots ! i) = Num p \<and>
         mul64 (Num a) (Num p) = Num m \<and>
         remainingQuantity (lots' ! i) = Num n \<and> price (lots' ! i) = Num p' \<and>
         2 powi (- 1022) \<le> \<bar>a * p\<bar> \<and> 2 powi (- 1022) \<le> \<bar>m / n\<bar> \<longrightarrow>
         \<bar>n * p' - a * p\<bar> \<le> \<bar>a * p\<bar> * (2 / 2 ^ 53 + 1 / 2 ^ 106))"
proof -
  define r where "r = parseBonusRatio (ratio d)"
  from applyBonusShares_Inr [OF assms] have
    r: "gt64 r (Num 0)" "le64 r (Num 1)" and
    q': "q' = q\<lparr>holdings := (holdings q)(symbol \<mapsto> map (adjustLot r (exDate d)) lots)\<rparr>"
    by (simp_all add: r_def)
  define lots' where "lots' = map (adjustLot r (exDate d)) lots"
  have h: "holdings q' symbol = Some lots'" by (simp add: q' lots'_def)
  have len: "length lots' = length lots" by (simp add: lots'_def)
  have each: "\<forall>i<length lots.
         (purchaseDate (lots ! i) < exDate d \<longrightarrow>
            remainingQuantity (lots' ! i) =
              add64 (remainingQuantity (lots ! i))
                (Math_floor (mul64 (remainingQuantity (lots ! i)) r)) \<and>
            quantity (lots' ! i) = quantity (lots ! i) \<and>
            price (lots' ! i) =
              div64 (mul64 (remainingQuantity (lots ! i)) (price (lots ! i)))
                (remainingQuantity (lots' ! i)) \<and>
            purchaseDate (lots' ! i) = purchaseDate (lots ! i) \<and>
            originalTransaction (lots' ! i) = originalTransaction (lots ! i)) \<and>
         (\<not> purchaseDate (lots ! i) < exDate d \<longrightarrow> lots' ! i = lots ! i)"
    by (simp add: lots'_def adjustLot_def Let_def)
  have kept: "\<forall>i<length lots. \<forall>a p m n p'.
         purchaseDate (lots ! i) < exDate d \<and>
         remainingQuantity (lots ! i) = Num a \<and> price (lots ! i) = Num p \<and>
         mul64 (Num a) (Num p) = Num m \<and>
         remainingQuantity (lots' ! i) = Num n \<and> price (lots' ! i) = Num p' \<and>
         2 powi (- 1022) \<le> \<bar>a * p\<bar> \<and> 2 powi (- 1022) \<le> \<bar>m / n\<bar> \<longrightarrow>
         \<bar>n * p' - a * p\<bar> \<le> \<bar>a * p\<bar> * (2 / 2 ^ 53 + 1 / 2 ^ 106)"
  proof (intro allI impI)
    fix i a p m n p'
    assume i: "i < length lots"
      and a: "purchaseDate (lots ! i) < exDate d \<and>
         remainingQuantity (lots ! i) = Num a \<and> price (lots ! i) = Num p \<and>
         mul64 (Num a) (Num p) = Num m \<and>
         remainingQuantity (lots' ! i) = Num n \<and> price (lots' ! i) = Num p' \<and>
         2 powi (- 1022) \<le> \<bar>a * p\<bar> \<and> 2 powi (- 1022) \<le> \<bar>m / n\<bar>"
    from a have a1: "remainingQuantity (lots ! i) = Num a" and a2: "price (lots ! i) = Num p"
      and a3: "mul64 (Num a) (Num p) = Num m" and a4: "remainingQuantity (lots' ! i) = Num n"
      and a5: "price (lots' ! i) = Num p'" and a6: "2 powi (- 1022) \<le> \<bar>a * p\<bar>"
      and a7: "2 powi (- 1022) \<le> \<bar>m / n\<bar>"
      by blast+
    from each i a have "price (lots' ! i) =
        div64 (mul64 (remainingQuantity (lots ! i)) (price (lots ! i)))
          (remainingQuantity (lots' ! i))"
      by blast
    then have "Num p' = div64 (Num m) (Num n)" by (simp only: a1 a2 a3 a4 a5)
    then have dv: "div64 (Num m) (Num n) = Num p'" by (rule sym)
    show "\<bar>n * p' - a * p\<bar> \<le> \<bar>a * p\<bar> * (2 / 2 ^ 53 + 1 / 2 ^ 106)"
      by (rule rescale_error [OF a3 dv a6 a7])
  qed
  from r_def r h len each kept show ?thesis by blast
qed

theorem applyBonusShares_rescales_witness:
  "\<exists>lots'. holdings (snd (applyBonusShares (hblQueue [Num 100]) ''HBL''
                             (bonusDetails (PercentString (Num 20))))) ''HBL'' = Some lots' \<and>
     map remainingQuantity lots' = [Num 120] \<and>
     map quantity lots' = [Num 100] \<and>
     map price lots' = [Num (5864062014805333 / 70368744177664)] \<and>
     \<bar>120 * (5864062014805333 / 70368744177664) - 100 * 100\<bar>
       \<le> \<bar>100 * 100 :: rat\<bar> * (2 / 2 ^ 53 + 1 / 2 ^ 106)"
proof -
  have h2: "holdings (hblQueue [Num 100]) ''HBL'' = Some [hblLot (Num 100)]"
    by (simp add: hblQueue_def)
  from applyBonusShares_rescales [OF hblQueue_bonus20 h2]
  obtain r lots' where r: "r = parseBonusRatio (ratio (bonusDetails (PercentString (Num 20))))"
    and h: "holdings \<lparr>holdings = [''HBL'' \<mapsto>
         [(hblLot (Num 100))\<lparr>remainingQuantity := Num 120,
                              price := Num (5864062014805333 / 70368744177664)\<rparr>]],
       transactions = [], realizedGains = []\<rparr> ''HBL'' = Some lots'"
    and len: "length lots' = length [hblLot (Num 100)]"
    and each: "\<forall>i<length [hblLot (Num 100)].
         (purchaseDate ([hblLot (Num 100)] ! i) < exDate (bonusDetails (PercentString (Num 20))) \<longrightarrow>
            remainingQuantity (lots' ! i) =
              add64 (remainingQuantity ([hblLot (Num 100)] ! i))
                (Math_floor (mul64 (remainingQuantity ([hblLot (Num 100)] ! i)) r)) \<and>
            quantity (lots' ! i) = quantity ([hblLot (Num 100)] ! i) \<and>
            price (lots' ! i) =
              div64 (mul64 (remainingQuantity ([hblLot (Num 100)] ! i)) (price ([hblLot (Num 100)] ! i)))
                (remainingQuantity (lots' ! i)))"
    and kept: "\<forall>i<length [hblLot (Num 100)]. \<forall>a p m n p'.
         purchaseDate ([hblLot (Num 100)] ! i) < exDate (bonusDetails (PercentString (Num 20))) \<and>
         remainingQuantity ([hblLot (Num 100)] ! i) = Num a \<and>
         price ([hblLot (Num 100)] ! i) = Num p \<and>
         mul64 (Num a) (Num p) = Num m \<and>
         remainingQuantity (lots' ! i) = Num n \<and> price (lots' ! i) = Num p' \<and>
         2 powi (- 1022) \<le> \<bar>a * p\<bar> \<and> 2 powi (- 1022) \<le> \<bar>m / n\<bar> \<longrightarrow>
         \<bar>n * p' - a * p\<bar> \<le> \<bar>a * p\<bar> * (2 / 2 ^ 53 + 1 / 2 ^ 106)"
    by blast
  from r have r15: "r = Num (3602879701896397 / 18014398509481984)"
    using binary64_1_5 by (simp add: bonusDetails_def parseBonusRatio_def div64_Num)
  from len obtain l where l: "lots' = [l]" by (cases lots') simp_all
  have before: "purchaseDate ([hblLot (Num 100)] ! 0) < exDate (bonusDetails (PercentString (Num 20)))"
    by (simp add: hblLot_def bonusDetails_def)
  from each before
  have g1: "remainingQuantity (lots' ! 0) =
      add64 (remainingQuantity ([hblLot (Num 100)] ! 0))
        (Math_floor (mul64 (remainingQuantity ([hblLot (Num 100)] ! 0)) r))"
    and g2: "quantity (lots' ! 0) = quantity ([hblLot (Num 100)] ! 0)"
    and g3: "price (lots' ! 0) =
      div64 (mul64 (remainingQuantity ([hblLot (Num 100)] ! 0)) (price ([hblLot (Num 100)] ! 0)))
        (remainingQuantity (lots' ! 0))"
    by (metis length_Cons zero_less_Suc)+
  have f1: "remainingQuantity l = Num 120"
    using g1 binary64_100_fifths by (simp add: l r15 hblLot_def mul64_Num)
  have f2: "quantity l = Num 100"
    using g2 by (simp add: l hblLot_def)
  have f3: "price l = Num (5864062014805333 / 70368744177664)"
    using g3 binary64_250_3 by (simp add: l f1 hblLot_def mul64_Num div64_Num)
  have a: "holdings (snd (applyBonusShares (hblQueue [Num 100]) ''HBL''
      (bonusDetails (PercentString (Num 20))))) ''HBL'' = Some lots'"
    using h by (simp only: hblQueue_bonus20 snd_conv)
  have b: "map remainingQuantity lots' = [Num 120]"
    by (simp only: l list.map f1)
  have c: "map quantity lots' = [Num 100]"
    by (simp only: l list.map f2)
  have e: "map price lots' = [Num (5864062014805333 / 70368744177664)]"
    by (simp only: l list.map f3)
  have "purchaseDate ([hblLot (Num 100)] ! 0) < exDate (bonusDetails (PercentString (Num 20))) \<and>
         remainingQuantity ([hblLot (Num 100)] ! 0) = Num 100 \<and>
         price ([hblLot (Num 100)] ! 0) = Num 100 \<and>
         mul64 (Num 100) (Num 100) = Num 10000 \<and>
         remainingQuantity (lots' ! 0) = Num 120 \<and>
         price (lots' ! 0) = Num (5864062014805333 / 70368744177664) \<and>
         2 powi (- 1022) \<le> \<bar>100 * 100 :: rat\<bar> \<and>
         2 powi (- 1022) \<le> \<bar>10000 / 120 :: rat\<bar>"
    using before by (simp add: l f1 f3 hblLot_def mul64_Num)
  with kept have g: "\<bar>120 * (5864062014805333 / 70368744177664) - 100 * 100\<bar>
       \<le> \<bar>100 * 100 :: rat\<bar> * (2 / 2 ^ 53 + 1 / 2 ^ 106)"
    by (metis length_Cons zero_less_Suc)
  show ?thesis
    by (rule exI [of _ lots'], intro conjI) (rule a b c e g)+
qed

text \<open>
  C5 as stated fails: the bonus adds nothing to \<open>quantity\<close>, and \<open>quantity * price\<close>
  is not kept. A 20 percent bonus on 100 shares at 100 leaves \<open>quantity\<close> 100 with 120
  remaining at 83.33333333333333. Nor is the bonus the floor of the remaining quantity
  times the ratio: at 29 percent the 100 shares get 28 bonus shares, because 100 times
  the binary64 value of 0.29 is rounded to 28.999999999999996.
\<close>

theorem bonus_leaves_quantity:
  "map quantity (queueOf (snd (applyBonusShares (hblQueue [Num 100]) ''HBL''
      (bonusDetails (PercentString (Num 20))))) ''HBL'') = [Num 100] \<and>
   map remainingQuantity (queueOf (snd (applyBonusShares (hblQueue [Num 100]) ''HBL''
      (bonusDetails (PercentString (Num 20))))) ''HBL'') = [Num 120] \<and>
   map price (queueOf (snd (applyBonusShares (hblQueue [Num 100]) ''HBL''
      (bonusDetails (PercentString (Num 20))))) ''HBL'') =
     [Num (5864062014805333 / 70368744177664)] \<and>
   quantity (hblLot (Num 100)) = Num 100 \<and> price (hblLot (Num 100)) = Num 100 \<and>
   map remainingQuantity (queueOf (snd (applyBonusShares (hblQueue [Num 100]) ''HBL''
      (bonusDetails (PercentString (Num 29))))) ''HBL'') = [Num 128] \<and>
   \<lfloor>100 * (29 / 100 :: rat)\<rfloor> = 29"
proof -
  have a: "snd (applyBonusShares (hblQueue [Num 100]) ''HBL''
      (bonusDetails (PercentString (Num 20)))) =
     \<lparr>holdings = [''HBL'' \<mapsto>
         [(hblLot (Num 100))\<lparr>remainingQuantity := Num 120,
                              price := Num (5864062014805333 / 70368744177664)\<rparr>]],
       transactions = [], realizedGains = []\<rparr>"
    by (simp add: hblQueue_bonus20)
  have b: "map remainingQuantity (queueOf (snd (applyBonusShares (hblQueue [Num 100]) ''HBL''
      (bonusDetails (PercentString (Num 29))))) ''HBL'') = [Num 128]"
    using binary64_29_100 binary64_100_times_29_100 binary64_625_8
    by (simp add: applyBonusShares_def hblQueue_def hblLot_def bonusDetails_def
        parseBonusRatio_def adjustLot_def Let_def mul64_Num div64_Num queueOf_def
        floor_divide_numeral_rat)
  have a1: "map quantity (queueOf (snd (applyBonusShares (hblQueue [Num 100]) ''HBL''
      (bonusDetails (PercentString (Num 20))))) ''HBL'') = [Num 100]"
    by (simp add: a queueOf_def hblLot_def)
  have a2: "map remainingQuantity (queueOf (snd (applyBonusShares (hblQueue [Num 100]) ''HBL''
      (bonusDetails (PercentString (Num 20))))) ''HBL'') = [Num 120]"
    by (simp add: a queueOf_def)
  have a3: "map price (queueOf (snd (applyBonusShares (hblQueue [Num 100]) ''HBL''
      (bonusDetails (PercentString (Num 20))))) ''HBL'') =
     [Num (5864062014805333 / 70368744177664)]"
    by (simp add: a queueOf_def)
  have c: "quantity (hblLot (Num 100)) = Num 100 \<and> price (hblLot (Num 100)) = Num 100"
    by (simp add: hblLot_def)
  have e: "\<lfloor>100 * (29 / 100 :: rat)\<rfloor> = 29" by simp
  show ?thesis
    using a1 a2 a3 b c e by (simp only: simp_thms)
qed

text \<open>
  C6. The code at a failing input: a 25 percent bonus on ten shares at 100 gives twelve at
  83.33333333333333, and the reversal with the recorded ratio gives \<open>floor (12 / 1.25) = 9\<close>
  shares at 111.11111111111111, not the ten at 100 held before the bonus.
\<close>

theorem bonus_reversal_loses_a_share:
  "fst (applyBonusShares (hblQueue [Num 10]) ''HBL'' (bonusDetails (PercentString (Num 25)))) =
     Inr \<lparr>br_symbol = ''HBL'', oldShares = Num 10, bonusShares = Num 2,
          newTotalShares = Num 12, oldAvgCost = Num 100,
          newAvgCost = Num (5864062014805333 / 70368744177664), br_costBasis = Num 1000,
          bonusRatio = Num (1 / 4)\<rparr> \<and>
   snd (applyBonusShares (hblQueue [Num 10]) ''HBL'' (bonusDetails (PercentString (Num 25)))) =
     \<lparr>holdings = [''HBL'' \<mapsto>
        [(hblLot (Num 10))\<lparr>remainingQuantity := Num 12,
                            price := Num (5864062014805333 / 70368744177664)\<rparr>]],
      transactions = [], realizedGains = []\<rparr> \<and>
   reverseBonusShares
       (snd (applyBonusShares (hblQueue [Num 10]) ''HBL'' (bonusDetails (PercentString (Num 25)))))
       ''HBL'' (Num (1 / 4)) 1740787200000 =
     (Inr (),
      \<lparr>holdings = [''HBL'' \<mapsto>
         [(hblLot (Num 10))\<lparr>remainingQuantity := Num 9,
                             price := Num (3909374676536889 / 35184372088832)\<rparr>]],
       transactions = [], realizedGains = []\<rparr>) \<and>
   remainingQuantity (hblLot (Num 10)) = Num 10 \<and> price (hblLot (Num 10)) = Num 100"
  using binary64_1_4 binary64_5_2 binary64_250_3 binary64_5_4 binary64_48_5
    binary64_12_times_250_3 binary64_1000_9
  by (simp add: applyBonusShares_def reverseBonusShares_def hblQueue_def hblLot_def
      bonusDetails_def parseBonusRatio_def adjustLot_def restoreLot_def Let_def
      floor_divide_numeral_rat mul64_Num div64_Num)

text \<open>
  Where the rights reversal does restore the queue: it removes the appended lot when the
  quantity of that lot is a number and no lot before it is a rights lot of its date and
  quantity.
\<close>

lemma findIndex_last:
  "\<forall>x\<in>set xs. \<not> P x \<Longrightarrow> P y \<Longrightarrow> findIndex P (xs @ [y]) = Some (length xs)"
  by (induction xs) simp_all

lemma reverseRightIssue_after_apply:
  assumes "holdings q symbol = Some lots"
      and "\<not> isNaN (quantity (rightLot symbol d r p e))"
      and "\<forall>l\<in>set lots. \<not> (isRightIssue (originalTransaction l)
              \<and> purchaseDate l = purchaseDate (rightLot symbol d r p e)
              \<and> eq64 (quantity l) (quantity (rightLot symbol d r p e)))"
  shows "reverseRightIssue (q\<lparr>holdings := (holdings q)(symbol \<mapsto> lots @ [rightLot symbol d r p e])\<rparr>)
           symbol (quantity (rightLot symbol d r p e)) (purchaseDate (rightLot symbol d r p e)) =
         (Inr (), q\<lparr>holdings := (holdings q)(symbol \<mapsto> lots)\<rparr>)"
proof -
  let ?P = "\<lambda>lot. isRightIssue (originalTransaction lot)
                \<and> purchaseDate lot = purchaseDate (rightLot symbol d r p e)
                \<and> eq64 (quantity lot) (quantity (rightLot symbol d r p e))"
  have "?P (rightLot symbol d r p e)"
    using assms(2) by (simp add: rightLot_def isRightIssue_def eq64_refl)
  with assms(3) have "findIndex ?P (lots @ [rightLot symbol d r p e]) = Some (length lots)"
    by (intro findIndex_last) auto
  moreover have "eq64 (remainingQuantity (rightLot symbol d r p e)) (quantity (rightLot symbol d r p e))"
    using assms(2) by (simp add: rightLot_def eq64_refl)
  ultimately show ?thesis
    by (simp add: reverseRightIssue_def Let_def)
qed

lemma eligibleShares_eq:
  "eligibleShares ex lots a =
     foldl add64 a (map remainingQuantity (filter (\<lambda>l. purchaseDate l < ex) lots))"
  by (induction lots arbitrary: a) simp_all

lemma getHoldings_total:
  "holdings q symbol = Some lots \<Longrightarrow> gt64 (available lots) (Num 0) \<Longrightarrow>
   \<exists>h. getHoldings q symbol = Some h"
  by (simp add: getHoldings_def Let_def totalAvailable_eq)

lemma getHoldings_none:
  "holdings q symbol = Some lots \<Longrightarrow> \<not> gt64 (available lots) (Num 0) \<Longrightarrow>
   getHoldings q symbol = None"
  by (simp add: getHoldings_def Let_def totalAvailable_eq)

text \<open>
  C7, as amended. For a rights issue whose ratio \<open>r\<close> is read from \<open>n:m\<close> as the
  binary64 quotient of \<open>n\<close> and \<open>m\<close> (an infinity for \<open>n:0\<close>, \<open>NaN\<close> for \<open>0:0\<close>), or
  is a decimal, with an issue price above zero, on a symbol whose shares bought before
  the ex-date, added up in binary64, are not zero: a ratio that is not above zero is
  refused as invalid and nothing changes; otherwise \<open>rightsQty\<close> is the floor of the
  binary64 product of the eligible shares and \<open>r\<close>, and when it is zero the operation
  fails with the ratio-too-small error and changes nothing, and when it is not, one lot
  is appended to the tail of the queue, with quantity and remaining quantity
  \<open>rightsQty\<close>, the issue price as unit cost, the subscription date, or the ex-date
  plus 30 days where there is none, as purchase date, and the rights-issue marker; the
  result is returned when the symbol's total quantity is then above zero, and a
  \<open>TypeError\<close> is thrown, the lot staying appended, when it is not.
\<close>

theorem applyRightIssue_appends:
  assumes "ratio d = ColonString n m \<and> r = div64 n m \<or> ratio d = Number r"
      and "gt64 (issuePrice d) (Num 0)"
      and "holdings q symbol = Some lots"
      and "\<not> eq64 (sum64 (map remainingQuantity
                            (filter (\<lambda>l. purchaseDate l < exDate d) lots))) (Num 0)"
  shows "let p = issuePrice d;
             eligible = sum64 (map remainingQuantity
                                 (filter (\<lambda>l. purchaseDate l < exDate d) lots));
             rightsQty = Math_floor (mul64 eligible r);
             newLot = \<lparr>quantity = rightsQty, price = p,
                       purchaseDate = (case subscriptionDate d of
                                         Some s \<Rightarrow> s
                                       | None \<Rightarrow> exDate d + 30 * 24 * 60 * 60 * 1000),
                       remainingQuantity = rightsQty,
                       originalTransaction = RIGHT_ISSUE symbol (exDate d) r p eligible\<rparr>
         in (\<not> gt64 r (Num 0) \<longrightarrow> applyRightIssue q symbol d = (Inl InvalidRightRatio, q)) \<and>
            (gt64 r (Num 0) \<and> eq64 rightsQty (Num 0) \<longrightarrow>
               applyRightIssue q symbol d = (Inl (RightRatioTooSmall eligible r), q)) \<and>
            (gt64 r (Num 0) \<and> \<not> eq64 rightsQty (Num 0) \<longrightarrow>
               snd (applyRightIssue q symbol d) =
                 q\<lparr>holdings := (holdings q)(symbol \<mapsto> lots @ [newLot])\<rparr> \<and>
               (gt64 (available (lots @ [newLot])) (Num 0) \<longrightarrow>
                  (\<exists>res. fst (applyRightIssue q symbol d) = Inr res \<and>
                         rightSharesEntitled res = rightsQty \<and>
                         rightPrice res = p \<and>
                         rr_purchaseDate res = purchaseDate newLot)) \<and>
               (\<not> gt64 (available (lots @ [newLot])) (Num 0) \<longrightarrow>
                  fst (applyRightIssue q symbol d) = Inl TypeError))"
proof -
  define p where "p = issuePrice d"
  have parse: "parseRightRatio (ratio d) = r"
    using assms(1) by (auto simp: parseRightRatio_def)
  have price_ok: "\<not> (isNaN p \<or> le64 p (Num 0))"
    using assms(2) not_gt64_zero [of p] by (simp add: p_def)
  define eligible where
    "eligible = sum64 (map remainingQuantity (filter (\<lambda>l. purchaseDate l < exDate d) lots))"
  have el: "eligibleShares (exDate d) lots (Num 0) = eligible"
    by (simp add: eligibleShares_eq eligible_def sum64_def)
  have nz: "\<not> eq64 eligible (Num 0)" using assms(4) by (simp add: eligible_def)
  have ne: "lots \<noteq> []" using nz by (auto simp: eligible_def sum64_def)
  define newLot where "newLot = rightLot symbol d r p eligible"
  define q' where "q' = q\<lparr>holdings := (holdings q)(symbol \<mapsto> lots @ [newLot])\<rparr>"
  have c1: "\<not> gt64 r (Num 0) \<longrightarrow> applyRightIssue q symbol d = (Inl InvalidRightRatio, q)"
    by (simp add: applyRightIssue_def parse not_gt64_zero)
  have valid: "\<not> (isNaN r \<or> le64 r (Num 0))" if "gt64 r (Num 0)"
    using that not_gt64_zero [of r] by simp
  have c2: "gt64 r (Num 0) \<and> eq64 (Math_floor (mul64 eligible r)) (Num 0) \<longrightarrow>
      applyRightIssue q symbol d = (Inl (RightRatioTooSmall eligible r), q)"
    using assms(3) ne nz price_ok valid
    by (simp add: applyRightIssue_def parse el Let_def p_def)
  have c3: "gt64 r (Num 0) \<and> \<not> eq64 (Math_floor (mul64 eligible r)) (Num 0) \<longrightarrow>
      snd (applyRightIssue q symbol d) = q'"
    using assms(3) ne nz price_ok valid
    by (auto simp: applyRightIssue_def parse el Let_def q'_def newLot_def p_def
        split: option.splits)
  have hq': "holdings q' symbol = Some (lots @ [newLot])" by (simp add: q'_def)
  have c4: "gt64 r (Num 0) \<and> \<not> eq64 (Math_floor (mul64 eligible r)) (Num 0) \<longrightarrow>
      gt64 (available (lots @ [newLot])) (Num 0) \<longrightarrow>
      (\<exists>res. fst (applyRightIssue q symbol d) = Inr res \<and>
             rightSharesEntitled res = Math_floor (mul64 eligible r) \<and>
             rightPrice res = p \<and>
             rr_purchaseDate res = purchaseDate newLot)"
  proof (intro impI)
    assume a: "gt64 r (Num 0) \<and> \<not> eq64 (Math_floor (mul64 eligible r)) (Num 0)"
      and b: "gt64 (available (lots @ [newLot])) (Num 0)"
    from getHoldings_total [OF hq' b] obtain h where h: "getHoldings q' symbol = Some h"
      by blast
    show "\<exists>res. fst (applyRightIssue q symbol d) = Inr res \<and>
             rightSharesEntitled res = Math_floor (mul64 eligible r) \<and>
             rightPrice res = p \<and>
             rr_purchaseDate res = purchaseDate newLot"
      using assms(3) ne nz price_ok valid a h
      by (simp add: applyRightIssue_def parse el Let_def q'_def [symmetric] newLot_def [symmetric]
          p_def [symmetric])
  qed
  have c5: "gt64 r (Num 0) \<and> \<not> eq64 (Math_floor (mul64 eligible r)) (Num 0) \<longrightarrow>
      \<not> gt64 (available (lots @ [newLot])) (Num 0) \<longrightarrow>
      fst (applyRightIssue q symbol d) = Inl TypeError"
  proof (intro impI)
    assume a: "gt64 r (Num 0) \<and> \<not> eq64 (Math_floor (mul64 eligible r)) (Num 0)"
      and b: "\<not> gt64 (available (lots @ [newLot])) (Num 0)"
    from getHoldings_none [OF hq' b] have h: "getHoldings q' symbol = None" .
    show "fst (applyRightIssue q symbol d) = Inl TypeError"
      using assms(3) ne nz price_ok valid a h
      by (simp add: applyRightIssue_def parse el Let_def q'_def [symmetric] newLot_def [symmetric]
          p_def [symmetric])
  qed
  have lotEq: "newLot = \<lparr>quantity = Math_floor (mul64 eligible r), price = p,
                       purchaseDate = (case subscriptionDate d of
                                         Some s \<Rightarrow> s
                                       | None \<Rightarrow> exDate d + 30 * 24 * 60 * 60 * 1000),
                       remainingQuantity = Math_floor (mul64 eligible r),
                       originalTransaction = RIGHT_ISSUE symbol (exDate d) r p eligible\<rparr>"
    by (simp add: newLot_def rightLot_def)
  show ?thesis
    unfolding Let_def p_def [symmetric] eligible_def [symmetric] lotEq [symmetric]
      q'_def [symmetric]
    using c1 c2 c3 c4 c5 by blast
qed

theorem applyRightIssue_appends_witness:
  "snd (applyRightIssue (hblQueue [Num 100]) ''HBL'' (rightDetails (ColonString (Num 1) (Num 5)))) =
     \<lparr>holdings = [''HBL'' \<mapsto>
        [hblLot (Num 100),
         \<lparr>quantity = Num 20, price = Num 80, purchaseDate = 1743379200000,
          remainingQuantity = Num 20,
          originalTransaction =
            RIGHT_ISSUE ''HBL'' 1740787200000 (Num (3602879701896397 / 18014398509481984))
              (Num 80) (Num 100)\<rparr>]],
      transactions = [], realizedGains = []\<rparr>"
proof -
  have h1: "ratio (rightDetails (ColonString (Num 1) (Num 5))) = ColonString (Num 1) (Num 5)
        \<and> Num (3602879701896397 / 18014398509481984) = div64 (Num 1) (Num 5)
      \<or> ratio (rightDetails (ColonString (Num 1) (Num 5))) =
          Number (Num (3602879701896397 / 18014398509481984))"
    using binary64_1_5 by (simp add: rightDetails_def div64_Num)
  have h2: "gt64 (issuePrice (rightDetails (ColonString (Num 1) (Num 5)))) (Num 0)"
    by (simp add: rightDetails_def)
  have h3: "holdings (hblQueue [Num 100]) ''HBL'' = Some [hblLot (Num 100)]"
    by (simp add: hblQueue_def)
  have h4: "\<not> eq64 (sum64 (map remainingQuantity
      (filter (\<lambda>l. purchaseDate l < exDate (rightDetails (ColonString (Num 1) (Num 5))))
         [hblLot (Num 100)]))) (Num 0)"
    by (simp add: rightDetails_def hblLot_def sum64_def)
  from applyRightIssue_appends [OF h1 h2 h3 h4] binary64_100_fifths
  show ?thesis
    by (simp add: Let_def rightDetails_def hblQueue_def hblLot_def sum64_def mul64_Num)
qed

text \<open>
  C7 as stated fails for a ratio that is not positive: with \<open>-1:5\<close> on 100 eligible
  shares \<open>floor (100 * -0.2)\<close> is -20, not zero, and no lot is appended: the operation
  is refused with the invalid-ratio error. Nor is the quantity of the new lot the floor of
  the eligible shares times \<open>n / m\<close>: with \<open>11:15\<close> on 150 shares it is 109, because
  150 times the binary64 value of 11/15 is rounded to 109.99999999999999.
\<close>

theorem rights_quantity_is_not_the_floor:
  "applyRightIssue (hblQueue [Num 100]) ''HBL'' (rightDetails (ColonString (Num (- 1)) (Num 5))) =
     (Inl InvalidRightRatio, hblQueue [Num 100]) \<and>
   eligibleShares (exDate (rightDetails (ColonString (Num (- 1)) (Num 5)))) [hblLot (Num 100)]
     (Num 0) = Num 100 \<and>
   \<lfloor>100 * (- 1 / 5 :: rat)\<rfloor> = - 20 \<and>
   map quantity (queueOf (snd (applyRightIssue (hblQueue [Num 150]) ''HBL''
      (rightDetails (ColonString (Num 11) (Num 15))))) ''HBL'') = [Num 150, Num 109] \<and>
   \<lfloor>150 * (11 / 15 :: rat)\<rfloor> = 110"
proof -
  have a: "applyRightIssue (hblQueue [Num 100]) ''HBL''
      (rightDetails (ColonString (Num (- 1)) (Num 5))) = (Inl InvalidRightRatio, hblQueue [Num 100])"
    using binary64_minus_1_5
    by (simp add: applyRightIssue_def parseRightRatio_def rightDetails_def div64_Num Let_def)
  have b: "eligibleShares (exDate (rightDetails (ColonString (Num (- 1)) (Num 5))))
      [hblLot (Num 100)] (Num 0) = Num 100"
    by (simp add: rightDetails_def hblLot_def)
  have c: "map quantity (queueOf (snd (applyRightIssue (hblQueue [Num 150]) ''HBL''
      (rightDetails (ColonString (Num 11) (Num 15))))) ''HBL'') = [Num 150, Num 109]"
    using binary64_11_15 binary64_150_times_11_15
    by (simp add: applyRightIssue_def parseRightRatio_def rightDetails_def div64_Num mul64_Num
        Let_def hblQueue_def hblLot_def rightLot_def getHoldings_def queueOf_def
        floor_divide_numeral_rat split: option.splits)
  show ?thesis
    using a b c by simp
qed

section \<open>The transactions list\<close>

lemma replay_buys: "replay [buy1, buy2] = ogdcQueue"
  by (simp add: replay_def addTransaction_def processBuy_def constructor_def toUpperCase_BUY
      toUpperCase_OGDC settlement_examples Let_def ogdcQueue_def ogdcLots_def buy1_def buy2_def
      numeral_2_eq_2 mul64_Num)

text \<open>
  C9. The code at a failing input: after the two buys of the example and the sale of 120
  shares, the transactions list holds the two buys only, the queue holds the 30 shares
  left of the second lot, and the replay of the list gives the two lots whole.
\<close>

theorem sell_is_not_recorded:
  "transactions (snd (addTransaction 0 ogdcQueue ''SELL'' ''OGDC'' (Num 120) (Num 150) 1740787200000)) =
     [buy1, buy2] \<and>
   map remainingQuantity
     (queueOf (snd (addTransaction 0 ogdcQueue ''SELL'' ''OGDC'' (Num 120) (Num 150) 1740787200000))
        ''OGDC'') = [Num 30] \<and>
   map remainingQuantity
     (queueOf (replay (transactions
        (snd (addTransaction 0 ogdcQueue ''SELL'' ''OGDC'' (Num 120) (Num 150) 1740787200000))))
        ''OGDC'') = [Num 100, Num 50]"
proof -
  define t where "t = \<lparr>txn_id = length (transactions ogdcQueue) + 1, txn_type = ''SELL'',
         txn_symbol = toUpperCase ''OGDC'', txn_quantity = Num 120, txn_price = Num 150,
         tradeDate = 1740787200000, settlementDate = calculateSettlementDate 1740787200000,
         totalValue = mul64 (Num 120) (Num 150), timestamp = 0\<rparr>"
  have h: "holdings ogdcQueue (txn_symbol t) = Some ogdcLots" "ogdcLots \<noteq> []"
      "\<not> lt64 (available ogdcLots) (txn_quantity t)"
    by (simp_all add: ogdcQueue_def toUpperCase_OGDC t_def available_ogdcLots)
       (simp add: ogdcLots_def)
  have kept: "map remainingQuantity (fifoKept (Num 120) ogdcLots) = [Num 30]"
    by (simp add: fifoKept_def consumeLot_def ogdcLots_def Let_def sub64_Num)
  have run: "snd (addTransaction 0 ogdcQueue ''SELL'' ''OGDC'' (Num 120) (Num 150) 1740787200000) =
      ogdcQueue\<lparr>holdings := (holdings ogdcQueue)(''OGDC'' \<mapsto> fifoKept (Num 120) ogdcLots),
        realizedGains := realizedGains ogdcQueue @
          [fifoSale ''OGDC'' (Num 120) (Num 150) 1741046400000 ogdcLots]\<rparr>"
    using processSell_success [OF h]
    by (simp add: addTransaction_SELL t_def toUpperCase_OGDC settlement_examples)
  have tr: "transactions (snd (addTransaction 0 ogdcQueue ''SELL'' ''OGDC'' (Num 120) (Num 150)
      1740787200000)) = [buy1, buy2]"
    by (simp only: run) (simp add: ogdcQueue_def)
  have live: "map remainingQuantity
      (queueOf (snd (addTransaction 0 ogdcQueue ''SELL'' ''OGDC'' (Num 120) (Num 150) 1740787200000))
         ''OGDC'') = [Num 30]"
    by (simp add: run queueOf_def kept)
  have rep: "map remainingQuantity (queueOf (replay [buy1, buy2]) ''OGDC'') = [Num 100, Num 50]"
    by (simp add: replay_buys queueOf_def ogdcQueue_def ogdcLots_def)
  show ?thesis
    using live rep by (simp only: tr)
qed

section \<open>Validation\<close>

text \<open>
  C10 as stated fails on \<open>addTransaction\<close>, which validates nothing: a buy of -5 shares
  appends a lot of -5 shares and records the transaction, and a sell of no shares records
  a realized gain.
\<close>

theorem addTransaction_does_not_validate:
  "addTransaction 0 constructor ''BUY'' ''OGDC'' (Num (- 5)) (Num 100) 1735689600000 =
     (Inr (TransactionRecord negativeBuy),
      \<lparr>holdings = [''OGDC'' \<mapsto>
         [\<lparr>quantity = Num (- 5), price = Num 100, purchaseDate = 1735862400000,
           remainingQuantity = Num (- 5), originalTransaction = Purchase negativeBuy\<rparr>]],
       transactions = [negativeBuy], realizedGains = []\<rparr>) \<and>
   realizedGains (snd (addTransaction 0 ogdcQueue ''SELL'' ''OGDC'' (Num 0) (Num 100) 1740787200000)) =
     [\<lparr>sr_symbol = ''OGDC'', quantitySold = Num 0, sellPrice = Num 100, saleProceeds = Num 0,
       totalCostBasis = Num 0, capitalGain = Num 0, lotsUsed = [], saleDate = 1741046400000,
       isSimulation = False\<rparr>]"
proof -
  have buy: "addTransaction 0 constructor ''BUY'' ''OGDC'' (Num (- 5)) (Num 100) 1735689600000 =
     (Inr (TransactionRecord negativeBuy),
      \<lparr>holdings = [''OGDC'' \<mapsto>
         [\<lparr>quantity = Num (- 5), price = Num 100, purchaseDate = 1735862400000,
           remainingQuantity = Num (- 5), originalTransaction = Purchase negativeBuy\<rparr>]],
       transactions = [negativeBuy], realizedGains = []\<rparr>)"
    by (simp add: addTransaction_def processBuy_def constructor_def toUpperCase_BUY
        toUpperCase_OGDC settlement_examples Let_def negativeBuy_def mul64_Num)
  define t where "t = \<lparr>txn_id = length (transactions ogdcQueue) + 1, txn_type = ''SELL'',
         txn_symbol = toUpperCase ''OGDC'', txn_quantity = Num 0, txn_price = Num 100,
         tradeDate = 1740787200000, settlementDate = calculateSettlementDate 1740787200000,
         totalValue = mul64 (Num 0) (Num 100), timestamp = 0\<rparr>"
  have h: "holdings ogdcQueue (txn_symbol t) = Some ogdcLots" "ogdcLots \<noteq> []"
      "\<not> lt64 (available ogdcLots) (txn_quantity t)"
    by (simp_all add: ogdcQueue_def toUpperCase_OGDC t_def available_ogdcLots)
       (simp add: ogdcLots_def)
  have sale: "fifoSale ''OGDC'' (Num 0) (Num 100) 1741046400000 ogdcLots =
      \<lparr>sr_symbol = ''OGDC'', quantitySold = Num 0, sellPrice = Num 100, saleProceeds = Num 0,
       totalCostBasis = Num 0, capitalGain = Num 0, lotsUsed = [], saleDate = 1741046400000,
       isSimulation = False\<rparr>"
    by (simp add: fifoSale_def touched_def ogdcLots_def Let_def sum64_def mul64_Num
        signedZero_def)
  have "realizedGains (snd (addTransaction 0 ogdcQueue ''SELL'' ''OGDC'' (Num 0) (Num 100)
      1740787200000)) =
      realizedGains ogdcQueue @ [fifoSale ''OGDC'' (Num 0) (Num 100) 1741046400000 ogdcLots]"
    using processSell_success [OF h]
    by (simp add: addTransaction_SELL t_def toUpperCase_OGDC settlement_examples)
  then show ?thesis
    using buy by (simp add: sale ogdcQueue_def)
qed

text \<open>
  C10, as amended. The transaction form handler refuses a request whose quantity or price
  is not positive with its "please fill all fields correctly" message, before it calls the
  queue, whose holdings, transactions and realized gains are left as they were.
\<close>

theorem handleAddTransaction_rejects:
  assumes "le64 qty (Num 0) \<or> le64 prc (Num 0)"
  shows "handleAddTransaction now q ty symbolField qty prc tradeDateField = (PleaseFillAllFields, q)"
  using assms by (auto simp: handleAddTransaction_def Let_def)

theorem handleAddTransaction_rejects_witness:
  "handleAddTransaction 0 constructor ''BUY'' ''OGDC'' (Num (- 5)) (Num 100) (Some 1735689600000) =
     (PleaseFillAllFields, constructor) \<and>
   handleAddTransaction 0 ogdcQueue ''SELL'' ''OGDC'' (Num 10) (Num 0) (Some 1740787200000) =
     (PleaseFillAllFields, ogdcQueue)"
proof -
  have h1: "le64 (Num (- 5)) (Num 0) \<or> le64 (Num 100) (Num 0)" by simp
  have h2: "le64 (Num 10) (Num 0) \<or> le64 (Num 0) (Num 0)" by simp
  show ?thesis
    using handleAddTransaction_rejects [OF h1, of 0 constructor "''BUY''" "''OGDC''" "Some 1735689600000"]
      handleAddTransaction_rejects [OF h2, of 0 ogdcQueue "''SELL''" "''OGDC''" "Some 1740787200000"]
    by (rule conjI)
qed


end
